theory Spec2Isabelle
  imports Main
begin

section \<open>The runtime's built-ins\<close>

text \<open>
  The worker (apps/baas-api/worker.js, the version with the agency and coupon
  endpoints) runs on a JavaScript runtime. Time values are integers, the milliseconds
  since the epoch, as \<^verbatim>\<open>Date.now()\<close> returns them. The calendar functions behind
  \<^verbatim>\<open>Date\<close> are the ones ECMA-262 defines (section "Time Values and Time Range"
  and following), written here under their names in that standard.
\<close>

definition msPerDay :: int where
  "msPerDay = 86400000"

definition Day :: "int \<Rightarrow> int" where
  "Day t = t div msPerDay"

definition DaysInYear :: "int \<Rightarrow> int" where
  "DaysInYear y =
     (if y mod 4 \<noteq> 0 then 365
      else if y mod 100 \<noteq> 0 then 366
      else if y mod 400 \<noteq> 0 then 365
      else 366)"

definition DayFromYear :: "int \<Rightarrow> int" where
  "DayFromYear y =
     365 * (y - 1970) + (y - 1969) div 4 - (y - 1901) div 100 + (y - 1601) div 400"

lemma div_succ:
  fixes n k :: int
  assumes k: "0 < k"
  shows "(n + 1) div k = n div k + (if (n + 1) mod k = 0 then 1 else 0)"
proof (cases "n mod k + 1 = k")
  case True
  have "n + 1 = n div k * k + (n mod k + 1)" by simp
  also have "\<dots> = (n div k + 1) * k" using True by (simp add: algebra_simps)
  finally have e: "n + 1 = (n div k + 1) * k" .
  have "(n + 1) div k = n div k + 1" using k by (simp add: e)
  moreover have "(n + 1) mod k = 0" by (simp add: e)
  ultimately show ?thesis by simp
next
  case False
  have nn: "0 \<le> n mod k" and "n mod k < k" using k by simp_all
  then have lt: "n mod k + 1 < k" using False by simp
  have e: "n + 1 = (n mod k + 1) + n div k * k" by simp
  have kz: "k \<noteq> 0" using k by simp
  have "(n + 1) div k = (n mod k + 1) div k + n div k"
    by (subst e) (simp only: div_mult_self1 [OF kz])
  then have d: "(n + 1) div k = n div k" using lt nn by (simp add: div_pos_pos_trivial)
  have "(n + 1) mod k = (n mod k + 1) mod k"
    by (subst e) (simp only: mod_mult_self1)
  then have m: "(n + 1) mod k = n mod k + 1" using lt nn by (simp add: mod_pos_pos_trivial)
  show ?thesis using d m nn by simp
qed

lemma mod_sub_mult: "(y - q * k) mod k = y mod (k::int)"
  using mod_mult_self1 [of y "- q" k] by simp

text \<open>Year \<open>y\<close> has \<open>DaysInYear y\<close> days: the leap-year rule agrees with the day count.\<close>

lemma DayFromYear_step: "DayFromYear (y + 1) = DayFromYear y + DaysInYear y"
proof -
  have a: "(y - 1969 + 1) div 4 = (y - 1969) div 4 + (if (y - 1969 + 1) mod 4 = 0 then 1 else 0)"
    by (rule div_succ) simp
  have b: "(y - 1901 + 1) div 100 = (y - 1901) div 100 + (if (y - 1901 + 1) mod 100 = 0 then 1 else 0)"
    by (rule div_succ) simp
  have c: "(y - 1601 + 1) div 400 = (y - 1601) div 400 + (if (y - 1601 + 1) mod 400 = 0 then 1 else 0)"
    by (rule div_succ) simp
  have m4: "(y - 1969 + 1) mod 4 = y mod 4"
    using mod_sub_mult [of y 492 4] by simp
  have m100: "(y - 1901 + 1) mod 100 = y mod 100"
    using mod_sub_mult [of y 19 100] by simp
  have m400: "(y - 1601 + 1) mod 400 = y mod 400"
    using mod_sub_mult [of y 4 400] by simp
  have "y mod 100 mod 4 = y mod 4" by (rule mod_mod_cancel) simp
  then have d4: "y mod 4 \<noteq> 0 \<Longrightarrow> y mod 100 \<noteq> 0" by auto
  have "y mod 400 mod 100 = y mod 100" by (rule mod_mod_cancel) simp
  then have d100: "y mod 100 \<noteq> 0 \<Longrightarrow> y mod 400 \<noteq> 0" by auto
  have e: "y + 1 - 1969 = y - 1969 + 1" "y + 1 - 1901 = y - 1901 + 1" "y + 1 - 1601 = y - 1601 + 1"
    by simp_all
  show ?thesis
    unfolding DayFromYear_def DaysInYear_def e a b c m4 m100 m400
    using d4 d100 by auto
qed

lemma DaysInYear_ge: "365 \<le> DaysInYear y"
  by (simp add: DaysInYear_def)

lemma DayFromYear_pred_less: "DayFromYear (y - 1) < DayFromYear y"
  using DayFromYear_step [of "y - 1"] DaysInYear_ge [of "y - 1"] by simp

text \<open>
  \<^verbatim>\<open>YearFromTime(t)\<close> is the largest year whose first day is not after the day of
  \<^verbatim>\<open>t\<close>. It is computed by stepping down from a year that is not too small:
  every year has at least 365 days, so \<open>1970 + d div 365\<close> is not before the
  year of a day \<open>d \<ge> 0\<close>, and 1969 is not before the year of a day \<open>d < 0\<close>.
\<close>

function year_down :: "int \<Rightarrow> int \<Rightarrow> int" where
  "year_down d y = (if d < DayFromYear y then year_down d (y - 1) else y)"
  by pat_completeness auto
termination
proof (relation "measure (\<lambda>(d, y). nat (DayFromYear y - d))")
  show "wf (measure (\<lambda>(d, y). nat (DayFromYear y - d)))"
    by simp
next
  fix d y :: int
  assume "d < DayFromYear y"
  with DayFromYear_pred_less [of y]
  show "((d, y - 1), (d, y)) \<in> measure (\<lambda>(d, y). nat (DayFromYear y - d))"
    by simp
qed

declare year_down.simps [simp del]

definition YearFromDay :: "int \<Rightarrow> int" where
  "YearFromDay d = year_down d (if 0 \<le> d then 1970 + d div 365 else 1969)"

definition YearFromTime :: "int \<Rightarrow> int" where
  "YearFromTime t = YearFromDay (Day t)"

definition InLeapYear :: "int \<Rightarrow> int" where
  "InLeapYear t = (if DaysInYear (YearFromTime t) = 366 then 1 else 0)"

definition DayWithinYear :: "int \<Rightarrow> int" where
  "DayWithinYear t = Day t - DayFromYear (YearFromTime t)"

text \<open>
  The day of the year on which month \<open>m\<close> (0 to 11) starts; \<open>leap\<close> is 0 or 1. At
  \<open>m = 12\<close> it is the day on which the next year starts.
\<close>

definition month_start :: "int \<Rightarrow> int \<Rightarrow> int" where
  "month_start m leap =
     (if m = 0 then 0
      else if m = 1 then 31
      else if m = 2 then 59 + leap
      else if m = 3 then 90 + leap
      else if m = 4 then 120 + leap
      else if m = 5 then 151 + leap
      else if m = 6 then 181 + leap
      else if m = 7 then 212 + leap
      else if m = 8 then 243 + leap
      else if m = 9 then 273 + leap
      else if m = 10 then 304 + leap
      else if m = 11 then 334 + leap
      else 365 + leap)"

definition MonthFromTime :: "int \<Rightarrow> int" where
  "MonthFromTime t =
     (let dwy = DayWithinYear t; leap = InLeapYear t in
      if dwy < 31 then 0
      else if dwy < 59 + leap then 1
      else if dwy < 90 + leap then 2
      else if dwy < 120 + leap then 3
      else if dwy < 151 + leap then 4
      else if dwy < 181 + leap then 5
      else if dwy < 212 + leap then 6
      else if dwy < 243 + leap then 7
      else if dwy < 273 + leap then 8
      else if dwy < 304 + leap then 9
      else if dwy < 334 + leap then 10
      else 11)"

definition DateFromTime :: "int \<Rightarrow> int" where
  "DateFromTime t =
     (let dwy = DayWithinYear t; leap = InLeapYear t; m = MonthFromTime t in
      if m = 0 then dwy + 1
      else if m = 1 then dwy - 30
      else if m = 2 then dwy - 58 - leap
      else if m = 3 then dwy - 89 - leap
      else if m = 4 then dwy - 119 - leap
      else if m = 5 then dwy - 150 - leap
      else if m = 6 then dwy - 180 - leap
      else if m = 7 then dwy - 211 - leap
      else if m = 8 then dwy - 242 - leap
      else if m = 9 then dwy - 272 - leap
      else if m = 10 then dwy - 303 - leap
      else dwy - 333 - leap)"

text \<open>
  \<^verbatim>\<open>MakeDay(year, month, date)\<close>: the day number of the first of the month, plus
  \<open>date - 1\<close>; a month outside 0 to 11 carries into the year.
\<close>

definition MakeDay :: "int \<Rightarrow> int \<Rightarrow> int \<Rightarrow> int" where
  "MakeDay year month date =
     (let ym = year + month div 12; mn = month mod 12 in
      DayFromYear ym + month_start mn (if DaysInYear ym = 366 then 1 else 0) + date - 1)"

definition MakeDate :: "int \<Rightarrow> int \<Rightarrow> int" where
  "MakeDate day time = day * msPerDay + time"

text \<open>\<^verbatim>\<open>TimeClip\<close>: a time value beyond 8.64e15 ms makes the Date invalid.\<close>

definition TimeClip :: "int \<Rightarrow> int option" where
  "TimeClip t = (if 8640000000000000 < abs t then None else Some t)"

text \<open>
  The local time zone is a fixed offset \<open>tza\<close> in milliseconds
  (\<^verbatim>\<open>LocalTime(t) = t + tza\<close>, \<^verbatim>\<open>UTC(t) = t - tza\<close>).
  \<^verbatim>\<open>new Date(year, month, date)\<close> reads its arguments as local time, and a
  year from 0 to 99 as 1900 + year.
\<close>

definition Date_ymd :: "int \<Rightarrow> int \<Rightarrow> int \<Rightarrow> int \<Rightarrow> int option" where
  "Date_ymd tza year month date =
     (let yr = (if 0 \<le> year \<and> year \<le> 99 then 1900 + year else year) in
      TimeClip (MakeDate (MakeDay yr month date) 0 - tza))"

definition getFullYear :: "int \<Rightarrow> int \<Rightarrow> int" where
  "getFullYear tza t = YearFromTime (t + tza)"

definition getMonth :: "int \<Rightarrow> int \<Rightarrow> int" where
  "getMonth tza t = MonthFromTime (t + tza)"

definition getDate :: "int \<Rightarrow> int \<Rightarrow> int" where
  "getDate tza t = DateFromTime (t + tza)"

definition getUTCFullYear :: "int \<Rightarrow> int" where
  "getUTCFullYear t = YearFromTime t"

definition getUTCMonth :: "int \<Rightarrow> int" where
  "getUTCMonth t = MonthFromTime t"

subsection \<open>Numbers\<close>

text \<open>
  A Number is an IEEE 754 double. The numbers that the worker counts with (costs, limits,
  sums of costs) are whole, and the model holds a whole double as the integer it is.
  Every integer of magnitude up to \<open>2\<^sup>5\<^sup>3 = 9007199254740992\<close> is a double. Beyond, a
  double keeps the 53 leading bits: \<^verbatim>\<open>+\<close>, \<^verbatim>\<open>-\<close> and \<^verbatim>\<open>*\<close> give the double nearest to
  the exact result, and of two equally near the one whose 53-bit significand is even;
  the same rounding applies where the database hands a 64-bit integer over as a
  Number. A comparison of two Numbers is exact. Fractions, NaN and the infinities
  (magnitudes from \<open>2\<^sup>1\<^sup>0\<^sup>2\<^sup>4\<close> on) are no integers and are left out. The numbers
  of a request body, of a token and of the quotas of a license are Numbers when the
  handler has them: \<^verbatim>\<open>JSON.parse\<close> has rounded their literals to doubles.
\<close>

text \<open>
  The unit in the last place of the double nearest to an integer of magnitude \<open>m\<close>:
  the power of two that leaves 53 bits of \<open>m\<close>, and 1 while \<open>m\<close> has no more than 53.
\<close>

function ulp :: "int \<Rightarrow> int" where
  "ulp m = (if m < 9007199254740992 then 1 else 2 * ulp (m div 2))"
  by pat_completeness auto
termination
  by (relation "measure nat") auto

declare ulp.simps [simp del]

definition round_double :: "int \<Rightarrow> int" where
  "round_double n =
     (let m = \<bar>n\<bar>;
          u = ulp m;
          q = m div u;
          r = m mod u;
          q' = (if u < 2 * r \<or> (2 * r = u \<and> odd q) then q + 1 else q)
      in sgn n * (q' * u))"

definition Number_add :: "int \<Rightarrow> int \<Rightarrow> int" where
  "Number_add x y = round_double (x + y)"

definition Number_subtract :: "int \<Rightarrow> int \<Rightarrow> int" where
  "Number_subtract x y = round_double (x - y)"

definition Number_multiply :: "int \<Rightarrow> int \<Rightarrow> int" where
  "Number_multiply x y = round_double (x * y)"

subsection \<open>Numbers as text\<close>

fun digits :: "nat \<Rightarrow> string" where
  "digits n =
     (if n < 10 then [''0123456789'' ! n]
      else digits (n div 10) @ [''0123456789'' ! (n mod 10)])"

declare digits.simps [simp del]

text \<open>\<^verbatim>\<open>String(n)\<close> and \<^verbatim>\<open>`${n}`\<close> for an integer \<open>n\<close>.\<close>

definition String_of :: "int \<Rightarrow> string" where
  "String_of n = (if n < 0 then CHR ''-'' # digits (nat (- n)) else digits (nat n))"

text \<open>\<^verbatim>\<open>s.padStart(n, '0')\<close>.\<close>

definition padStart0 :: "nat \<Rightarrow> string \<Rightarrow> string" where
  "padStart0 n s = replicate (n - length s) CHR ''0'' @ s"

subsection \<open>Text, tokens and the environment\<close>

text \<open>\<^verbatim>\<open>s.split(c)\<close> for a one-character separator.\<close>

fun split_on :: "char \<Rightarrow> string \<Rightarrow> string list" where
  "split_on c [] = [[]]"
| "split_on c (x # xs) =
     (if x = c then [] # split_on c xs
      else (case split_on c xs of [] \<Rightarrow> [[x]] | s # ss \<Rightarrow> (x # s) # ss))"

text \<open>\<^verbatim>\<open>s.replace(pat, rep)\<close> for a text pattern: the first occurrence only.\<close>

fun replace_first :: "string \<Rightarrow> string \<Rightarrow> string \<Rightarrow> string" where
  "replace_first pat rep [] = (if pat = [] then rep else [])"
| "replace_first pat rep (x # xs) =
     (if take (length pat) (x # xs) = pat then rep @ drop (length pat) (x # xs)
      else x # replace_first pat rep xs)"

text \<open>
  The payload of a token, as the handlers read it after \<^verbatim>\<open>JSON.parse\<close>: a field
  that the object does not have is \<open>None\<close> (\<^verbatim>\<open>undefined\<close>). The fields are those
  that \<^verbatim>\<open>signJwt\<close> is called with anywhere in the worker.
\<close>

record claims =
  c_aud :: "string option"
  c_jti :: "string option"
  c_type :: "string option"
  c_agency_id :: "string option"
  c_seat_index :: "int option"
  c_exp :: "int option"
  c_typ :: "string option"
  c_projectId :: "string option"
  c_deviceId :: "string option"
  c_level :: "string option"

definition no_claims :: claims where
  "no_claims = \<lparr>c_aud = None, c_jti = None, c_type = None, c_agency_id = None,
     c_seat_index = None, c_exp = None, c_typ = None, c_projectId = None,
     c_deviceId = None, c_level = None\<rparr>"

text \<open>
  What the worker takes from its runtime and its environment bindings, and does not
  compute itself:
  \<^item> \<open>atob_JSON_parse s\<close> is \<^verbatim>\<open>JSON.parse(atob(s))\<close>, \<open>None\<close> when either throws;
  \<^item> \<open>b64url_JSON_stringify p\<close> is
    \<^verbatim>\<open>encodeBase64Url(new TextEncoder().encode(JSON.stringify(p)))\<close>;
  \<^item> \<open>b64url bytes\<close> is \<^verbatim>\<open>encodeBase64Url(bytes)\<close>;
  \<^item> \<open>rs256_sign data\<close> is \<^verbatim>\<open>encodeBase64Url\<close> of the RSASSA-PKCS1-v1_5 / SHA-256
    signature of \<open>data\<close> under \<^verbatim>\<open>env.PRIVATE_JWK\<close>;
  \<^item> \<open>LocalTZA\<close> is the offset of the runtime's local time zone, in milliseconds;
  \<^item> \<open>ADMIN_SECRET\<close> is \<^verbatim>\<open>env.ADMIN_SECRET\<close>, \<open>None\<close> when it is not set.
\<close>

record runtime =
  atob_JSON_parse :: "string \<Rightarrow> claims option"
  b64url_JSON_stringify :: "claims \<Rightarrow> string"
  b64url :: "string \<Rightarrow> string"
  rs256_sign :: "string \<Rightarrow> string"
  LocalTZA :: int
  ADMIN_SECRET :: "string option"

text \<open>
  \<^verbatim>\<open>signJwt(payload, privateJwk, env)\<close>. The encoded header is the base64url text of
  \<^verbatim>\<open>{"alg":"RS256","typ":"JWT"}\<close>.
\<close>

definition encodedHeader :: string where
  "encodedHeader = ''eyJhbGciOiJSUzI1NiIsInR5cCI6IkpXVCJ9''"

definition signJwt :: "runtime \<Rightarrow> claims \<Rightarrow> string" where
  "signJwt rt payload =
     (let encodedPayload = b64url_JSON_stringify rt payload;
          data = encodedHeader @ ''.'' @ encodedPayload
      in data @ ''.'' @ rs256_sign rt data)"

text \<open>
  \<^verbatim>\<open>JSON.parse(atob(token.split('.')[1]))\<close>, as the start, heartbeat and meter
  handlers decode a token. A token with no second segment makes \<^verbatim>\<open>atob\<close> throw.
\<close>

definition decode_payload :: "runtime \<Rightarrow> string \<Rightarrow> claims option" where
  "decode_payload rt token =
     (case split_on CHR ''.'' token of
        _ # payload # _ \<Rightarrow> atob_JSON_parse rt payload
      | _ \<Rightarrow> None)"

section \<open>The database\<close>

text \<open>
  The tables of db/schema.sql (the schema with the agencies and coupon_codes tables),
  each a list of rows in insertion order. The columns that D1 fills by default and no
  handler reads or binds (the row ids of usage and users_seen, issued_at, created_at,
  ts) are left out. The quotas column and plan_details_json hold JSON text; a row keeps
  the object that \<^verbatim>\<open>JSON.parse\<close> gives back for it.
\<close>

record bucket_quota =
  bq_daily :: "int option"

record quotas =
  q_daily :: "int option"
  q_byCategory :: "(string \<times> bucket_quota) list option"

record agency =
  ag_agency_id :: string
  ag_name :: "string option"
  ag_seat_quota :: int

record license =
  l_jti :: string
  l_project_id :: string
  l_type :: string
  l_agency_id :: "string option"
  l_seat_index :: "int option"
  l_quotas :: "quotas option"
  l_exp :: int
  l_revoked :: bool

record activation_session =
  s_activation_id :: string
  s_jti :: string
  s_challenge :: string
  s_device_info :: "string option"

record activation =
  a_activation_id :: string
  a_jti :: string
  a_device_id :: string
  a_credential_id :: string
  a_public_key :: string
  a_last_seen :: "int option"
  a_revoked :: bool

record usage_row =
  u_jti :: string
  u_device_id :: string
  u_bucket :: string
  u_cost :: int
  u_day_key :: int
  u_minute_key :: int
  u_month_key :: string

record user_seen =
  us_jti :: string
  us_device_id :: string
  us_user_hash :: string

record plan_details =
  pd_durationDays :: int
  pd_quotas :: quotas

record coupon =
  cp_code :: string
  cp_project_id :: string
  cp_plan_details :: plan_details
  cp_max_uses :: int
  cp_current_uses :: int
  cp_expires_at :: "int option"

record db =
  agencies :: "agency list"
  licenses :: "license list"
  activation_sessions :: "activation_session list"
  activations :: "activation list"
  usage :: "usage_row list"
  users_seen :: "user_seen list"
  coupon_codes :: "coupon list"

subsection \<open>Statements\<close>

text \<open>
  An INSERT that a constraint of the schema rejects changes nothing and makes
  \<^verbatim>\<open>run()\<close> throw: the result is \<open>None\<close>. D1 enforces foreign keys.
\<close>

definition insert_agency :: "agency \<Rightarrow> db \<Rightarrow> db option" where
  "insert_agency g d =
     (if list_ex (\<lambda>x. ag_agency_id x = ag_agency_id g) (agencies d) then None
      else Some (d\<lparr>agencies := agencies d @ [g]\<rparr>))"

definition insert_license :: "license \<Rightarrow> db \<Rightarrow> db option" where
  "insert_license l d =
     (if list_ex (\<lambda>x. l_jti x = l_jti l) (licenses d) then None
      else if l_type l \<noteq> ''seat'' \<and> l_type l \<noteq> ''individual'' then None
      else if (case l_agency_id l of None \<Rightarrow> False
               | Some a \<Rightarrow> \<not> list_ex (\<lambda>g. ag_agency_id g = a) (agencies d)) then None
      else Some (d\<lparr>licenses := licenses d @ [l]\<rparr>))"

definition insert_activation_session :: "activation_session \<Rightarrow> db \<Rightarrow> db option" where
  "insert_activation_session s d =
     (if list_ex (\<lambda>x. s_activation_id x = s_activation_id s) (activation_sessions d) then None
      else if \<not> list_ex (\<lambda>l. l_jti l = s_jti s) (licenses d) then None
      else Some (d\<lparr>activation_sessions := activation_sessions d @ [s]\<rparr>))"

definition insert_activation :: "activation \<Rightarrow> db \<Rightarrow> db option" where
  "insert_activation a d =
     (if list_ex (\<lambda>x. a_activation_id x = a_activation_id a) (activations d) then None
      else if list_ex (\<lambda>x. a_jti x = a_jti a \<and> a_device_id x = a_device_id a) (activations d)
        then None
      else if \<not> list_ex (\<lambda>l. l_jti l = a_jti a) (licenses d) then None
      else Some (d\<lparr>activations := activations d @ [a]\<rparr>))"

definition insert_usage :: "usage_row \<Rightarrow> db \<Rightarrow> db option" where
  "insert_usage u d =
     (if \<not> list_ex (\<lambda>l. l_jti l = u_jti u) (licenses d) then None
      else Some (d\<lparr>usage := usage d @ [u]\<rparr>))"

text \<open>INSERT OR IGNORE: a row that UNIQUE(jti, device_id, user_hash) rejects is skipped.\<close>

definition insert_or_ignore_user_seen :: "user_seen \<Rightarrow> db \<Rightarrow> db" where
  "insert_or_ignore_user_seen u d =
     (if list_ex (\<lambda>x. us_jti x = us_jti u \<and> us_device_id x = us_device_id u
                      \<and> us_user_hash x = us_user_hash u) (users_seen d)
      then d
      else d\<lparr>users_seen := users_seen d @ [u]\<rparr>)"

definition insert_coupon :: "coupon \<Rightarrow> db \<Rightarrow> db option" where
  "insert_coupon c d =
     (if list_ex (\<lambda>x. cp_code x = cp_code c) (coupon_codes d) then None
      else Some (d\<lparr>coupon_codes := coupon_codes d @ [c]\<rparr>))"

text \<open>SELECT * FROM licenses WHERE jti = ?1 AND revoked = 0, \<^verbatim>\<open>first()\<close>.\<close>

definition select_live_license :: "string \<Rightarrow> db \<Rightarrow> license option" where
  "select_live_license jti d = find (\<lambda>l. l_jti l = jti \<and> \<not> l_revoked l) (licenses d)"

text \<open>
  SELECT SUM(cost) as total FROM usage WHERE jti = ?1 AND day_key = ?2 AND bucket = ?3:
  the sum of the column, an integer of the database (0 when no row matches, by the
  \<^verbatim>\<open>|| 0\<close> of the handler).
\<close>

definition sum_cost :: "string \<Rightarrow> int \<Rightarrow> string \<Rightarrow> db \<Rightarrow> int" where
  "sum_cost jti dayKey bucket d =
     sum_list (map u_cost (filter (\<lambda>u. u_jti u = jti \<and> u_day_key u = dayKey \<and> u_bucket u = bucket)
       (usage d)))"

section \<open>Responses\<close>

datatype thrown = JsError | D1Error

record webauthn_options =
  wo_challenge :: string
  wo_rp_id :: string
  wo_user_id :: string
  wo_user_name :: string
  wo_user_displayName :: string

text \<open>
  The JSON bodies of \<^verbatim>\<open>jsonResponse\<close>, one constructor for each shape the handlers
  send. \<open>Denied bucket remaining resetAt\<close> is
  \<^verbatim>\<open>{ allowed: false, bucket, remaining, resetAt }\<close>; \<open>resetAt\<close> is kept as the time
  value of the Date that \<^verbatim>\<open>toISOString()\<close> prints (in UTC) into the body.
\<close>

datatype body =
    Error string
  | Started string webauthn_options
  | ActivationCert string
  | Ok
  | Allowed
  | Denied string int int
  | LicenseToken string
  | LicenseTokens "string list"
  | OkJti string
  | OkAgency string
  | OkCode string

text \<open>
  A handler ends with a response, or with an exception that nothing in the worker
  catches: \<open>JsError\<close> for one thrown by the runtime (\<^verbatim>\<open>atob\<close>, \<^verbatim>\<open>JSON.parse\<close>, a
  property of \<^verbatim>\<open>undefined\<close>, \<^verbatim>\<open>toISOString\<close> of an invalid Date), \<open>D1Error\<close> for one
  thrown by the database (a constraint, or \<^verbatim>\<open>undefined\<close> bound to a parameter).
\<close>

datatype result = Response int body | Thrown thrown

section \<open>The handlers\<close>

text \<open>
  Each handler takes the database and returns the database it leaves and how it ends.
  What a handler draws from outside (a reading of the clock for each \<^verbatim>\<open>Date.now()\<close>
  or \<^verbatim>\<open>new Date()\<close>, the result of each \<^verbatim>\<open>crypto.randomUUID()\<close> and
  \<^verbatim>\<open>crypto.getRandomValues\<close>) is an argument. A body field whose absence only makes
  the handler throw is taken as present. The two GET endpoints (revocations, analytics
  summary) only read and are not modelled.
\<close>

subsection \<open>POST /v1/activate/start\<close>

text \<open>
  \<open>sr_deviceInfo\<close> is \<^verbatim>\<open>JSON.stringify(deviceInfo)\<close>: \<open>None\<close> when the body has no
  deviceInfo (\<^verbatim>\<open>JSON.stringify(undefined)\<close> is \<^verbatim>\<open>undefined\<close>, and binding it to the
  INSERT throws), the JSON text otherwise (\<^verbatim>\<open>'null'\<close> for \<^verbatim>\<open>null\<close>).
\<close>

record start_request =
  sr_projectId :: "string option"
  sr_licenseToken :: string
  sr_deviceInfo :: "string option"
  sr_hostname :: string

definition activate_start ::
  "runtime \<Rightarrow> int \<Rightarrow> string \<Rightarrow> string \<Rightarrow> db \<Rightarrow> start_request \<Rightarrow> db \<times> result" where
  "activate_start rt now challenge activationId d req =
     (case decode_payload rt (sr_licenseToken req) of
        None \<Rightarrow> (d, Thrown JsError)
      | Some decodedToken \<Rightarrow>
          if c_aud decodedToken \<noteq> sr_projectId req
          then (d, Response 400 (Error ''Invalid token audience.''))
          else if (case c_exp decodedToken of None \<Rightarrow> False | Some e \<Rightarrow> e * 1000 < now)
          then (d, Response 400 (Error ''License token has expired.''))
          else
            (case c_jti decodedToken of
               None \<Rightarrow> (d, Thrown D1Error)
             | Some jti \<Rightarrow>
                 (case select_live_license jti d of
                    None \<Rightarrow>
                      (d, Response 404
                         (Error ''License not found, has been revoked, or is invalid.''))
                  | Some license \<Rightarrow>
                      (case sr_deviceInfo req of
                         None \<Rightarrow> (d, Thrown D1Error)
                       | Some deviceInfo \<Rightarrow>
                           (case insert_activation_session
                                   \<lparr>s_activation_id = activationId, s_jti = jti,
                                    s_challenge = b64url rt challenge,
                                    s_device_info = Some deviceInfo\<rparr> d of
                              None \<Rightarrow> (d, Thrown D1Error)
                            | Some d' \<Rightarrow>
                                (d', Response 200
                                   (Started activationId
                                      \<lparr>wo_challenge = b64url rt challenge,
                                       wo_rp_id = sr_hostname req,
                                       wo_user_id = b64url rt jti,
                                       wo_user_name = jti,
                                       wo_user_displayName = ''License '' @ jti\<rparr>)))))))"

subsection \<open>POST /v1/activate/finish\<close>

record credential =
  cr_id :: "string option"

record finish_request =
  fr_activationId :: string
  fr_credential :: "credential option"

text \<open>
  \<open>t_seen\<close> is the clock at the INSERT (last_seen), \<open>t_cert\<close> the clock when the
  certificate's expiry is computed, \<open>deviceId\<close> the fresh UUID.
\<close>

definition activate_finish ::
  "runtime \<Rightarrow> int \<Rightarrow> int \<Rightarrow> string \<Rightarrow> db \<Rightarrow> finish_request \<Rightarrow> db \<times> result" where
  "activate_finish rt t_seen t_cert deviceId d req =
     (case find (\<lambda>s. s_activation_id s = fr_activationId req) (activation_sessions d) of
        None \<Rightarrow> (d, Response 404 (Error ''Activation session not found or expired.''))
      | Some session \<Rightarrow>
          (case fr_credential req of
             None \<Rightarrow> (d, Thrown JsError)
           | Some credential \<Rightarrow>
               (case cr_id credential of
                  None \<Rightarrow> (d, Thrown D1Error)
                | Some credential_id \<Rightarrow>
                    (case insert_activation
                            \<lparr>a_activation_id = fr_activationId req, a_jti = s_jti session,
                             a_device_id = deviceId, a_credential_id = credential_id,
                             a_public_key = ''{}'', a_last_seen = Some (t_seen div 1000),
                             a_revoked = False\<rparr> d of
                       None \<Rightarrow> (d, Thrown D1Error)
                     | Some d' \<Rightarrow>
                         (case find (\<lambda>l. l_jti l = s_jti session) (licenses d') of
                            None \<Rightarrow> (d', Thrown JsError)
                          | Some license \<Rightarrow>
                              (d', Response 200
                                 (ActivationCert
                                    (signJwt rt
                                       (no_claims
                                          \<lparr>c_typ := Some ''activation'',
                                           c_projectId := Some (l_project_id license),
                                           c_jti := Some (s_jti session),
                                           c_deviceId := Some deviceId,
                                           c_level := Some ''webauthn'',
                                           c_exp := Some (t_cert div 1000
                                                          + 7 * 24 * 60 * 60)\<rparr>)))))))))"

subsection \<open>POST /v1/heartbeat\<close>

record heartbeat_request =
  hr_activationCert :: string
  hr_userIdHash :: "string option"

text \<open>UPDATE activations SET last_seen = ?1 WHERE jti = ?2 AND device_id = ?3.\<close>

definition update_last_seen :: "int \<Rightarrow> string \<Rightarrow> string \<Rightarrow> db \<Rightarrow> db" where
  "update_last_seen seen jti deviceId d =
     d\<lparr>activations :=
         map (\<lambda>a. if a_jti a = jti \<and> a_device_id a = deviceId
                    then a\<lparr>a_last_seen := Some seen\<rparr> else a) (activations d)\<rparr>"

definition heartbeat :: "runtime \<Rightarrow> int \<Rightarrow> db \<Rightarrow> heartbeat_request \<Rightarrow> db \<times> result" where
  "heartbeat rt now d req =
     (case decode_payload rt (hr_activationCert req) of
        None \<Rightarrow> (d, Thrown JsError)
      | Some decodedCert \<Rightarrow>
          (case (c_jti decodedCert, c_deviceId decodedCert) of
             (Some jti, Some deviceId) \<Rightarrow>
               (let d1 = update_last_seen (now div 1000) jti deviceId d;
                    d2 = (case hr_userIdHash req of
                            None \<Rightarrow> d1
                          | Some userIdHash \<Rightarrow>
                              if userIdHash = [] then d1
                              else insert_or_ignore_user_seen
                                     \<lparr>us_jti = jti, us_device_id = deviceId,
                                      us_user_hash = userIdHash\<rparr> d1)
                in (d2, Response 200 Ok))
           | _ \<Rightarrow> (d, Thrown D1Error)))"

subsection \<open>POST /v1/usage/meter\<close>

record meter_request =
  mr_activationCert :: string
  mr_bucket :: string
  mr_cost :: "int option"

text \<open>A number is truthy when it is there and is not 0.\<close>

definition truthy :: "int option \<Rightarrow> bool" where
  "truthy v = (case v of None \<Rightarrow> False | Some n \<Rightarrow> n \<noteq> 0)"

text \<open>
  \<^verbatim>\<open>JSON.parse(license.quotas || '{}')\<close>, then
  \<^verbatim>\<open>bucketQuota = (quotas.byCategory && quotas.byCategory[bucket]) || {}\<close> and
  \<^verbatim>\<open>dailyLimit = bucketQuota.daily || quotas.daily\<close>.
\<close>

definition dailyLimit_of :: "license \<Rightarrow> string \<Rightarrow> int option" where
  "dailyLimit_of license bucket =
     (let quotas = (case l_quotas license of
                      None \<Rightarrow> \<lparr>q_daily = None, q_byCategory = None\<rparr>
                    | Some q \<Rightarrow> q);
          bucketQuota = (case q_byCategory quotas of
                           None \<Rightarrow> \<lparr>bq_daily = None\<rparr>
                         | Some byCategory \<Rightarrow>
                             (case map_of byCategory bucket of
                                None \<Rightarrow> \<lparr>bq_daily = None\<rparr>
                              | Some bq \<Rightarrow> bq))
      in if truthy (bq_daily bucketQuota) then bq_daily bucketQuota else q_daily quotas)"

text \<open>
  \<^verbatim>\<open>new Date(today.getFullYear(), today.getMonth(), today.getDate() + 1)\<close>: the
  time value of that Date, \<open>None\<close> when the Date is invalid.
\<close>

definition resetAt_of :: "runtime \<Rightarrow> int \<Rightarrow> int option" where
  "resetAt_of rt today =
     Date_ymd (LocalTZA rt) (getFullYear (LocalTZA rt) today) (getMonth (LocalTZA rt) today)
       (getDate (LocalTZA rt) today + 1)"

text \<open>
  The block under \<^verbatim>\<open>if (dailyLimit)\<close>: \<open>Some\<close> is the handler's early return,
  \<open>None\<close> lets it go on to the INSERT. \<open>todaysUsage\<close> is the Number that the database
  hands over for the sum; \<^verbatim>\<open>todaysUsage + cost\<close> and \<^verbatim>\<open>dailyLimit - todaysUsage\<close> are
  computed on Numbers.
\<close>

definition quota_check ::
  "runtime \<Rightarrow> int \<Rightarrow> db \<Rightarrow> string \<Rightarrow> string \<Rightarrow> int \<Rightarrow> int option \<Rightarrow> result option" where
  "quota_check rt today d jti bucket cost dailyLimit =
     (if truthy dailyLimit then
        (let limit = the dailyLimit;
             dayKey = today div 86400000;
             todaysUsage = round_double (sum_cost jti dayKey bucket d)
         in if Number_add todaysUsage cost > limit then
              (case resetAt_of rt today of
                 None \<Rightarrow> Some (Thrown JsError)
               | Some resetAt \<Rightarrow>
                   Some (Response 429
                           (Denied bucket (Number_subtract limit todaysUsage) resetAt)))
            else None)
      else None)"

definition monthKey_of :: "int \<Rightarrow> string" where
  "monthKey_of now =
     String_of (getUTCFullYear now) @ padStart0 2 (String_of (getUTCMonth now + 1))"

text \<open>
  \<open>t_check\<close> is the clock at the expiry test, \<open>today\<close> the Date of the quota block,
  \<open>now\<close> the Date the keys of the new row are computed from.
\<close>

definition usage_meter ::
  "runtime \<Rightarrow> int \<Rightarrow> int \<Rightarrow> int \<Rightarrow> db \<Rightarrow> meter_request \<Rightarrow> db \<times> result" where
  "usage_meter rt t_check today now d req =
     (let bucket = mr_bucket req;
          cost = (case mr_cost req of None \<Rightarrow> 1 | Some c \<Rightarrow> c)
      in case decode_payload rt (mr_activationCert req) of
           None \<Rightarrow> (d, Thrown JsError)
         | Some decodedCert \<Rightarrow>
             (case c_jti decodedCert of
                None \<Rightarrow> (d, Thrown D1Error)
              | Some jti \<Rightarrow>
                  (case select_live_license jti d of
                     None \<Rightarrow> (d, Response 403 (Error ''Invalid or expired license.''))
                   | Some license \<Rightarrow>
                       if l_exp license * 1000 < t_check
                       then (d, Response 403 (Error ''Invalid or expired license.''))
                       else
                         (case quota_check rt today d jti bucket cost
                                 (dailyLimit_of license bucket) of
                            Some early \<Rightarrow> (d, early)
                          | None \<Rightarrow>
                              (case c_deviceId decodedCert of
                                 None \<Rightarrow> (d, Thrown D1Error)
                               | Some deviceId \<Rightarrow>
                                   (case insert_usage
                                           \<lparr>u_jti = jti, u_device_id = deviceId,
                                            u_bucket = bucket, u_cost = cost,
                                            u_day_key = now div 86400000,
                                            u_minute_key = now div 60000,
                                            u_month_key = monthKey_of now\<rparr> d of
                                      None \<Rightarrow> (d, Thrown D1Error)
                                    | Some d' \<Rightarrow> (d', Response 200 Allowed)))))))"

subsection \<open>POST /v1/coupons/redeem\<close>

record redeem_request =
  rr_couponCode :: "string option"
  rr_projectId :: "string option"

text \<open>\<^verbatim>\<open>!s\<close> for a text that may be missing: missing or empty.\<close>

definition falsy_text :: "string option \<Rightarrow> bool" where
  "falsy_text s = (case s of None \<Rightarrow> True | Some t \<Rightarrow> t = [])"

text \<open>
  The handler awaits the database three times: the SELECT of the coupon, the INSERT of
  the license, the UPDATE of the coupon. \<open>redeem_select\<close> is the handler up to the
  point where the coupon has passed its tests (\<open>Inl\<close> is an early return, \<open>Inr\<close> the
  coupon row the handler goes on with); \<open>redeem_issue\<close> is the rest, run on the
  database as it is by then.
\<close>

definition redeem_select :: "int \<Rightarrow> db \<Rightarrow> redeem_request \<Rightarrow> result + coupon" where
  "redeem_select t_check d req =
     (if falsy_text (rr_couponCode req) \<or> falsy_text (rr_projectId req)
      then Inl (Response 400 (Error ''couponCode and projectId are required.''))
      else
        (case find (\<lambda>c. cp_code c = the (rr_couponCode req)
                          \<and> cp_project_id c = the (rr_projectId req)) (coupon_codes d) of
           None \<Rightarrow> Inl (Response 404 (Error ''Invalid or expired coupon code.''))
         | Some coupon \<Rightarrow>
             if cp_current_uses coupon \<ge> cp_max_uses coupon
             then Inl (Response 403
                         (Error ''This coupon has reached its maximum number of uses.''))
             else if truthy (cp_expires_at coupon) \<and> the (cp_expires_at coupon) * 1000 < t_check
             then Inl (Response 403 (Error ''This coupon has expired.''))
             else Inr coupon))"

text \<open>UPDATE coupon_codes SET current_uses = current_uses + 1 WHERE code = ?1.\<close>

definition increment_current_uses :: "string \<Rightarrow> db \<Rightarrow> db" where
  "increment_current_uses couponCode d =
     d\<lparr>coupon_codes :=
         map (\<lambda>c. if cp_code c = couponCode
                    then c\<lparr>cp_current_uses := cp_current_uses c + 1\<rparr> else c)
           (coupon_codes d)\<rparr>"

definition redeem_issue ::
  "runtime \<Rightarrow> int \<Rightarrow> string \<Rightarrow> db \<Rightarrow> redeem_request \<Rightarrow> coupon \<Rightarrow> db \<times> result" where
  "redeem_issue rt t_issue jti d req coupon =
     (let planDetails = cp_plan_details coupon;
          projectId = the (rr_projectId req);
          exp = Number_add (t_issue div 1000)
                  (Number_multiply
                     (Number_multiply (Number_multiply (pd_durationDays planDetails) 24) 60)
                     60)
      in case insert_license
                \<lparr>l_jti = jti, l_project_id = projectId, l_type = ''individual'',
                 l_agency_id = None, l_seat_index = None,
                 l_quotas = Some (pd_quotas planDetails), l_exp = exp,
                 l_revoked = False\<rparr> d of
           None \<Rightarrow> (d, Thrown D1Error)
         | Some d1 \<Rightarrow>
             (let d2 = increment_current_uses (the (rr_couponCode req)) d1
              in (d2, Response 200
                        (LicenseToken
                           (signJwt rt
                              (no_claims
                                 \<lparr>c_aud := Some projectId, c_jti := Some jti,
                                  c_type := Some ''individual'', c_exp := Some exp\<rparr>))))))"

text \<open>The handler when nothing else touches the database between its statements.\<close>

definition coupons_redeem ::
  "runtime \<Rightarrow> int \<Rightarrow> int \<Rightarrow> string \<Rightarrow> db \<Rightarrow> redeem_request \<Rightarrow> db \<times> result" where
  "coupons_redeem rt t_check t_issue jti d req =
     (case redeem_select t_check d req of
        Inl early \<Rightarrow> (d, early)
      | Inr coupon \<Rightarrow> redeem_issue rt t_issue jti d req coupon)"

subsection \<open>The admin endpoints\<close>

record admin_headers =
  h_X_Admin_Secret :: "string option"
  h_Authorization :: "string option"

text \<open>
  \<^verbatim>\<open>adminAuth\<close>: \<open>Some\<close> is the 401 response that ends the request, \<open>None\<close> lets the
  handler run. An empty X-Admin-Secret header is falsy, so the Authorization header
  is read instead.
\<close>

definition adminAuth :: "runtime \<Rightarrow> admin_headers \<Rightarrow> result option" where
  "adminAuth rt h =
     (let secret =
            (if \<not> falsy_text (h_X_Admin_Secret h) then h_X_Admin_Secret h
             else (case h_Authorization h of
                     None \<Rightarrow> None
                   | Some a \<Rightarrow> Some (replace_first ''Bearer '' [] a)))
      in if secret \<noteq> ADMIN_SECRET rt then Some (Response 401 (Error ''Unauthorized''))
         else None)"

text \<open>
  The body of /admin/agencies/create. \<open>ar_name\<close> is \<open>None\<close> when the body has no name
  (binding \<^verbatim>\<open>undefined\<close> throws), \<open>Some None\<close> when it is \<^verbatim>\<open>null\<close>.
\<close>

record agency_request =
  ar_agencyId :: string
  ar_name :: "string option option"
  ar_seatQuota :: int

definition agencies_create ::
  "runtime \<Rightarrow> admin_headers \<Rightarrow> db \<Rightarrow> agency_request \<Rightarrow> db \<times> result" where
  "agencies_create rt h d req =
     (case adminAuth rt h of
        Some unauthorized \<Rightarrow> (d, unauthorized)
      | None \<Rightarrow>
          (case ar_name req of
             None \<Rightarrow> (d, Thrown D1Error)
           | Some name \<Rightarrow>
               (case insert_agency
                       \<lparr>ag_agency_id = ar_agencyId req, ag_name = name,
                        ag_seat_quota = ar_seatQuota req\<rparr> d of
                  None \<Rightarrow> (d, Thrown D1Error)
                | Some d' \<Rightarrow> (d', Response 201 (OkAgency (ar_agencyId req))))))"

text \<open>
  The body of /admin/licenses/issue. \<open>ir_agencyId\<close> is \<open>None\<close> when the body has no
  agencyId (binding \<^verbatim>\<open>undefined\<close> throws), \<open>Some None\<close> when it is \<^verbatim>\<open>null\<close>.
  \<open>seats\<close> and \<open>durationDays\<close> default to 1 and 30.
\<close>

record issue_request =
  ir_projectId :: string
  ir_type :: string
  ir_agencyId :: "string option option"
  ir_seats :: "int option"
  ir_durationDays :: "int option"
  ir_quotas :: "quotas option"

text \<open>
  The loop \<^verbatim>\<open>for (let i = 0; i < seats; i++)\<close>: \<open>k\<close> rounds are left, \<open>uuid i\<close> and
  \<open>clock i\<close> are the UUID and the clock of round \<open>i\<close>. A statement that throws ends
  the handler and leaves the rows of the rounds before it.
\<close>

fun issue_loop ::
  "runtime \<Rightarrow> (nat \<Rightarrow> string) \<Rightarrow> (nat \<Rightarrow> int) \<Rightarrow> issue_request \<Rightarrow> nat \<Rightarrow> nat \<Rightarrow> db
     \<Rightarrow> string list \<Rightarrow> db \<times> result" where
  "issue_loop rt uuid clock req i 0 d issuedTokens =
     (d, Response 201 (LicenseTokens issuedTokens))"
| "issue_loop rt uuid clock req i (Suc k) d issuedTokens =
     (let jti = uuid i;
          durationDays = (case ir_durationDays req of None \<Rightarrow> 30 | Some n \<Rightarrow> n);
          exp = Number_add (clock i div 1000)
                  (Number_multiply (Number_multiply (Number_multiply durationDays 24) 60) 60);
          seat_index = (if ir_type req = ''seat'' then Some (int i + 1) else None)
      in case (ir_agencyId req, ir_quotas req) of
           (Some agencyId, Some quotas) \<Rightarrow>
             (case insert_license
                     \<lparr>l_jti = jti, l_project_id = ir_projectId req, l_type = ir_type req,
                      l_agency_id = agencyId, l_seat_index = seat_index,
                      l_quotas = Some quotas, l_exp = exp, l_revoked = False\<rparr> d of
                None \<Rightarrow> (d, Thrown D1Error)
              | Some d' \<Rightarrow>
                  issue_loop rt uuid clock req (Suc i) k d'
                    (issuedTokens @
                       [signJwt rt
                          (no_claims
                             \<lparr>c_aud := Some (ir_projectId req), c_jti := Some jti,
                              c_type := Some (ir_type req), c_agency_id := agencyId,
                              c_seat_index := seat_index, c_exp := Some exp\<rparr>)]))
         | _ \<Rightarrow> (d, Thrown D1Error))"

definition licenses_issue ::
  "runtime \<Rightarrow> admin_headers \<Rightarrow> (nat \<Rightarrow> string) \<Rightarrow> (nat \<Rightarrow> int) \<Rightarrow> db \<Rightarrow> issue_request
     \<Rightarrow> db \<times> result" where
  "licenses_issue rt h uuid clock d req =
     (case adminAuth rt h of
        Some unauthorized \<Rightarrow> (d, unauthorized)
      | None \<Rightarrow>
          issue_loop rt uuid clock req 0
            (case ir_seats req of None \<Rightarrow> 1 | Some n \<Rightarrow> nat n) d [])"

text \<open>
  /admin/licenses/revoke: the two UPDATEs go to the database as one batch, which D1
  runs as a transaction.
\<close>

definition revoke_batch :: "string \<Rightarrow> db \<Rightarrow> db" where
  "revoke_batch jti d =
     d\<lparr>licenses := map (\<lambda>l. if l_jti l = jti then l\<lparr>l_revoked := True\<rparr> else l) (licenses d),
       activations :=
         map (\<lambda>a. if a_jti a = jti then a\<lparr>a_revoked := True\<rparr> else a) (activations d)\<rparr>"

definition licenses_revoke :: "runtime \<Rightarrow> admin_headers \<Rightarrow> db \<Rightarrow> string \<Rightarrow> db \<times> result" where
  "licenses_revoke rt h d jti =
     (case adminAuth rt h of
        Some unauthorized \<Rightarrow> (d, unauthorized)
      | None \<Rightarrow> (revoke_batch jti d, Response 200 (OkJti jti)))"

record coupon_request =
  cr_code :: "string option"
  cr_projectId :: "string option"
  cr_durationDays :: "int option"
  cr_quotas :: "quotas option"
  cr_maxUses :: "int option"
  cr_expiresAt :: "int option"

definition coupons_create ::
  "runtime \<Rightarrow> admin_headers \<Rightarrow> db \<Rightarrow> coupon_request \<Rightarrow> db \<times> result" where
  "coupons_create rt h d req =
     (case adminAuth rt h of
        Some unauthorized \<Rightarrow> (d, unauthorized)
      | None \<Rightarrow>
          if falsy_text (cr_code req) \<or> falsy_text (cr_projectId req)
             \<or> \<not> truthy (cr_durationDays req) \<or> cr_quotas req = None
             \<or> \<not> truthy (cr_maxUses req)
          then (d, Response 400 (Error ''Missing required fields.''))
          else
            (case insert_coupon
                    \<lparr>cp_code = the (cr_code req), cp_project_id = the (cr_projectId req),
                     cp_plan_details =
                       \<lparr>pd_durationDays = the (cr_durationDays req),
                        pd_quotas = the (cr_quotas req)\<rparr>,
                     cp_max_uses = the (cr_maxUses req), cp_current_uses = 0,
                     cp_expires_at = (if truthy (cr_expiresAt req) then cr_expiresAt req
                                      else None)\<rparr> d of
               None \<Rightarrow> (d, Thrown D1Error)
             | Some d' \<Rightarrow> (d', Response 201 (OkCode (the (cr_code req))))))"

section \<open>Notions that the properties are stated with\<close>

text \<open>The cost a request asks for (1 when it names none), and the row the handler inserts.\<close>

definition cost_of :: "meter_request \<Rightarrow> int" where
  "cost_of req = (case mr_cost req of None \<Rightarrow> 1 | Some c \<Rightarrow> c)"

definition usage_row_of :: "string \<Rightarrow> string \<Rightarrow> int \<Rightarrow> meter_request \<Rightarrow> usage_row" where
  "usage_row_of jti deviceId now req =
     \<lparr>u_jti = jti, u_device_id = deviceId, u_bucket = mr_bucket req, u_cost = cost_of req,
      u_day_key = now div 86400000, u_minute_key = now div 60000,
      u_month_key = monthKey_of now\<rparr>"

text \<open>
  The per-bucket daily limit and the global daily limit that the quotas of a license
  configure (\<open>None\<close> when the quotas have no such entry).
\<close>

definition bucket_daily :: "license \<Rightarrow> string \<Rightarrow> int option" where
  "bucket_daily lic bucket =
     (case l_quotas lic of
        None \<Rightarrow> None
      | Some q \<Rightarrow>
          (case q_byCategory q of
             None \<Rightarrow> None
           | Some byCategory \<Rightarrow>
               (case map_of byCategory bucket of None \<Rightarrow> None | Some bq \<Rightarrow> bq_daily bq)))"

definition global_daily :: "license \<Rightarrow> int option" where
  "global_daily lic = (case l_quotas lic of None \<Rightarrow> None | Some q \<Rightarrow> q_daily q)"



text \<open>
  \<open>statement d d'\<close>: one of the worker's writing statements takes the database from
  \<open>d\<close> to \<open>d'\<close>. These are all the INSERTs and UPDATEs of the worker. \<open>later d d'\<close>: the
  database \<open>d'\<close> comes from \<open>d\<close> by any number of them, in any order, from any requests.
\<close>

inductive statement :: "db \<Rightarrow> db \<Rightarrow> bool" where
  st_agency: "insert_agency g d = Some d' \<Longrightarrow> statement d d'"
| st_license: "insert_license l d = Some d' \<Longrightarrow> statement d d'"
| st_session: "insert_activation_session s d = Some d' \<Longrightarrow> statement d d'"
| st_activation: "insert_activation a d = Some d' \<Longrightarrow> statement d d'"
| st_usage: "insert_usage u d = Some d' \<Longrightarrow> statement d d'"
| st_user_seen: "statement d (insert_or_ignore_user_seen us d)"
| st_coupon: "insert_coupon c d = Some d' \<Longrightarrow> statement d d'"
| st_last_seen: "statement d (update_last_seen seen jti deviceId d)"
| st_current_uses: "statement d (increment_current_uses couponCode d)"
| st_revoke: "statement d (revoke_batch jti d)"

definition later :: "db \<Rightarrow> db \<Rightarrow> bool" where
  "later d d' = rtranclp statement d d'"

text \<open>The license \<open>jti\<close> has a row, and no row of it is unrevoked.\<close>

definition revoked_license :: "string \<Rightarrow> db \<Rightarrow> bool" where
  "revoked_license jti d =
     (list_ex (\<lambda>l. l_jti l = jti) (licenses d) \<and> select_live_license jti d = None)"

text \<open>What the first UPDATE of the revoke batch does to a row of licenses.\<close>

definition revoke_row :: "string \<Rightarrow> license \<Rightarrow> license" where
  "revoke_row j l = (if l_jti l = j then l\<lparr>l_revoked := True\<rparr> else l)"

section \<open>Example data\<close>

text \<open>
  A runtime, a database and requests on which the theorems below are instantiated.
  The codec of the example runtime writes a payload as its jti and deviceId and reads
  three payloads back; its signature of any data is the same text. The clock readings
  are 14 November 2023, 22:13:20 UTC and the seconds after it, day 19675 since the epoch.
  The license ''lic-1'' of the example database is bound to the device ''dev-A''; its
  global daily limit is 100, that of its bucket ''ai'' is 2 and that of ''free'' is 0.
\<close>

definition demo_license_claims :: claims where
  "demo_license_claims =
     no_claims\<lparr>c_aud := Some ''p1'', c_jti := Some ''lic-1'', c_type := Some ''individual'',
       c_exp := Some 1702592000\<rparr>"

definition demo_cert_claims :: claims where
  "demo_cert_claims =
     no_claims\<lparr>c_typ := Some ''activation'', c_projectId := Some ''p1'',
       c_jti := Some ''lic-1'', c_deviceId := Some ''dev-A'', c_level := Some ''webauthn'',
       c_exp := Some 1700604800\<rparr>"

definition demo_unbound_claims :: claims where
  "demo_unbound_claims =
     no_claims\<lparr>c_typ := Some ''activation'', c_projectId := Some ''p1'',
       c_jti := Some ''lic-9'', c_deviceId := Some ''dev-Z'', c_level := Some ''webauthn'',
       c_exp := Some 1700604800\<rparr>"

definition demo_runtime :: runtime where
  "demo_runtime =
     \<lparr>atob_JSON_parse =
        (\<lambda>s. if s = ''lic-1'' then Some demo_license_claims
             else if s = ''lic-1_dev-A'' then Some demo_cert_claims
             else if s = ''lic-9_dev-Z'' then Some demo_unbound_claims
             else None),
      b64url_JSON_stringify =
        (\<lambda>p. (case c_jti p of None \<Rightarrow> [] | Some jti \<Rightarrow> jti)
             @ (case c_deviceId p of None \<Rightarrow> [] | Some deviceId \<Rightarrow> ''_'' @ deviceId)),
      b64url = (\<lambda>bytes. bytes),
      rs256_sign = (\<lambda>data. ''c2lnbmF0dXJl''),
      LocalTZA = 0,
      ADMIN_SECRET = Some ''admin-secret''\<rparr>"

definition demo_license :: license where
  "demo_license =
     \<lparr>l_jti = ''lic-1'', l_project_id = ''p1'', l_type = ''individual'', l_agency_id = None,
      l_seat_index = None,
      l_quotas = Some \<lparr>q_daily = Some 100,
                        q_byCategory = Some [(''ai'', \<lparr>bq_daily = Some 2\<rparr>),
                                             (''free'', \<lparr>bq_daily = Some 0\<rparr>)]\<rparr>,
      l_exp = 1702592000, l_revoked = False\<rparr>"

definition demo_activation :: activation where
  "demo_activation =
     \<lparr>a_activation_id = ''act-1'', a_jti = ''lic-1'', a_device_id = ''dev-A'',
      a_credential_id = ''cred-A'', a_public_key = ''{}'', a_last_seen = Some 1699990000,
      a_revoked = False\<rparr>"

definition demo_usage :: "string \<Rightarrow> usage_row" where
  "demo_usage bucket =
     \<lparr>u_jti = ''lic-1'', u_device_id = ''dev-A'', u_bucket = bucket, u_cost = 1,
      u_day_key = 19675, u_minute_key = 28333333, u_month_key = ''202311''\<rparr>"

definition demo_db :: db where
  "demo_db =
     \<lparr>agencies = [], licenses = [demo_license], activation_sessions = [],
      activations = [demo_activation],
      usage = [demo_usage ''ai'', demo_usage ''ai'', demo_usage ''free''],
      users_seen = [], coupon_codes = []\<rparr>"

definition demo_license_token :: string where
  "demo_license_token = ''eyJhbGciOiJSUzI1NiIsInR5cCI6IkpXVCJ9.lic-1.c2lnbmF0dXJl''"

definition demo_cert :: string where
  "demo_cert = ''eyJhbGciOiJSUzI1NiIsInR5cCI6IkpXVCJ9.lic-1_dev-A.c2lnbmF0dXJl''"

definition demo_unbound_cert :: string where
  "demo_unbound_cert = ''eyJhbGciOiJSUzI1NiIsInR5cCI6IkpXVCJ9.lic-9_dev-Z.c2lnbmF0dXJl''"

definition demo_meter_request :: "string \<Rightarrow> meter_request" where
  "demo_meter_request bucket =
     \<lparr>mr_activationCert = demo_cert, mr_bucket = bucket, mr_cost = None\<rparr>"

text \<open>
  The example database with the expiry of its license moved to 1 January 2025, for
  calls of the meter in 2024, and the example runtime in a zone five and a half hours
  ahead of UTC.
\<close>

definition demo_db_2024 :: db where
  "demo_db_2024 = demo_db\<lparr>licenses := [demo_license\<lparr>l_exp := 1735689600\<rparr>]\<rparr>"





definition demo_admin :: admin_headers where
  "demo_admin = \<lparr>h_X_Admin_Secret = Some ''admin-secret'', h_Authorization = None\<rparr>"

text \<open>The example database with the global daily limit of its license set to 0.\<close>

definition demo_db_free :: db where
  "demo_db_free =
     demo_db\<lparr>licenses :=
        [demo_license\<lparr>l_quotas :=
           Some \<lparr>q_daily = Some 0, q_byCategory = Some [(''free'', \<lparr>bq_daily = Some 0\<rparr>)]\<rparr>\<rparr>]\<rparr>"

text \<open>The example database after the revocation of ''lic-1''.\<close>

definition demo_revoked_db :: db where
  "demo_revoked_db =
     demo_db\<lparr>licenses := [demo_license\<lparr>l_revoked := True\<rparr>],
             activations := [demo_activation\<lparr>a_revoked := True\<rparr>]\<rparr>"

text \<open>
  A start request with the license token of ''lic-1'', the session ''act-2'' that it
  opens, the finish request of a second device for that session, and the database
  after that finish.
\<close>

definition demo_start_request :: start_request where
  "demo_start_request =
     \<lparr>sr_projectId = Some ''p1'', sr_licenseToken = demo_license_token,
      sr_deviceInfo = Some ''{}'', sr_hostname = ''baas.example''\<rparr>"

definition demo_started :: body where
  "demo_started =
     Started ''act-2''
       \<lparr>wo_challenge = ''Y2hhbGxlbmdl'', wo_rp_id = ''baas.example'', wo_user_id = ''lic-1'',
        wo_user_name = ''lic-1'', wo_user_displayName = ''License lic-1''\<rparr>"

definition demo_session :: activation_session where
  "demo_session =
     \<lparr>s_activation_id = ''act-2'', s_jti = ''lic-1'', s_challenge = ''Y2hhbGxlbmdl'',
      s_device_info = Some ''{}''\<rparr>"

definition demo_session_db :: db where
  "demo_session_db = demo_db\<lparr>activation_sessions := [demo_session]\<rparr>"

definition demo_finish_request :: finish_request where
  "demo_finish_request =
     \<lparr>fr_activationId = ''act-2'', fr_credential = Some \<lparr>cr_id = Some ''cred-B''\<rparr>\<rparr>"

definition demo_activation_B :: activation where
  "demo_activation_B =
     \<lparr>a_activation_id = ''act-2'', a_jti = ''lic-1'', a_device_id = ''dev-B'',
      a_credential_id = ''cred-B'', a_public_key = ''{}'', a_last_seen = Some 1700000000,
      a_revoked = False\<rparr>"

definition demo_bound_db :: db where
  "demo_bound_db = demo_session_db\<lparr>activations := [demo_activation, demo_activation_B]\<rparr>"

text \<open>
  A coupon with one use, two redemptions of it, and the database after the first and
  after the second of them has run its INSERT and UPDATE.
\<close>

definition demo_coupon :: coupon where
  "demo_coupon =
     \<lparr>cp_code = ''WEBINAR_SPECIAL'', cp_project_id = ''p1'',
      cp_plan_details =
        \<lparr>pd_durationDays = 30, pd_quotas = \<lparr>q_daily = Some 5, q_byCategory = None\<rparr>\<rparr>,
      cp_max_uses = 1, cp_current_uses = 0, cp_expires_at = None\<rparr>"

definition demo_coupon_db :: db where
  "demo_coupon_db =
     \<lparr>agencies = [], licenses = [], activation_sessions = [], activations = [], usage = [],
      users_seen = [], coupon_codes = [demo_coupon]\<rparr>"

definition demo_redeem_request :: redeem_request where
  "demo_redeem_request = \<lparr>rr_couponCode = Some ''WEBINAR_SPECIAL'', rr_projectId = Some ''p1''\<rparr>"

definition demo_coupon_db_A :: db where
  "demo_coupon_db_A =
     fst (redeem_issue demo_runtime 1700000000002 ''lic-A'' demo_coupon_db demo_redeem_request
            demo_coupon)"

definition demo_coupon_db_AB :: db where
  "demo_coupon_db_AB =
     fst (redeem_issue demo_runtime 1700000000003 ''lic-B'' demo_coupon_db_A
            demo_redeem_request demo_coupon)"

text \<open>The license token and the certificate of ''lic-1'' under a signature that is not the signer's.\<close>

definition forged_license_token :: string where
  "forged_license_token = ''eyJhbGciOiJSUzI1NiIsInR5cCI6IkpXVCJ9.lic-1.Zm9yZ2Vk''"

definition forged_cert :: string where
  "forged_cert = ''eyJhbGciOiJSUzI1NiIsInR5cCI6IkpXVCJ9.lic-1_dev-A.Zm9yZ2Vk''"

section \<open>Properties of the calendar functions\<close>

lemma year_down_le: "DayFromYear (year_down d y) \<le> d"
proof (induction d y rule: year_down.induct)
  case (1 d y)
  then show ?case by (subst year_down.simps) auto
qed

lemma year_down_upper: "d < DayFromYear (y + 1) \<Longrightarrow> d < DayFromYear (year_down d y + 1)"
proof (induction d y rule: year_down.induct)
  case (1 d y)
  show ?case
  proof (cases "d < DayFromYear y")
    case True
    then have "d < DayFromYear (year_down d (y - 1) + 1)" using 1 by simp
    then show ?thesis using True by (subst year_down.simps) simp
  next
    case False
    then show ?thesis using "1.prems" by (subst year_down.simps) simp
  qed
qed

lemma DayFromYear_1970: "DayFromYear 1970 = 0"
  by (simp add: DayFromYear_def)

lemma DayFromYear_mono_nat: "DayFromYear y + 365 * int n \<le> DayFromYear (y + int n)"
proof (induction n)
  case 0
  then show ?case by simp
next
  case (Suc n)
  have "y + int (Suc n) = (y + int n) + 1" by simp
  then have "DayFromYear (y + int (Suc n)) = DayFromYear (y + int n) + DaysInYear (y + int n)"
    by (simp only: DayFromYear_step)
  then show ?case using Suc DaysInYear_ge [of "y + int n"] by simp
qed

lemma DayFromYear_mono: "y \<le> y' \<Longrightarrow> DayFromYear y \<le> DayFromYear y'"
  using DayFromYear_mono_nat [of y "nat (y' - y)"] by simp

lemma DayFromYear_strict: "y < y' \<Longrightarrow> DayFromYear y < DayFromYear y'"
  using DayFromYear_mono [of "y + 1" y'] DayFromYear_step [of y] DaysInYear_ge [of y] by simp

lemma start_year_upper:
  "d < DayFromYear ((if 0 \<le> d then 1970 + d div 365 else 1969) + 1)"
proof (cases "0 \<le> d")
  case True
  have lin: "\<And>q m :: int. m < 365 \<Longrightarrow> d = 365 * q + m \<Longrightarrow> d < 365 * (q + 1)"
    by simp
  have "d < 365 * (d div 365 + 1)"
    by (rule lin [of "d mod 365"]) simp_all
  moreover have "DayFromYear 1970 + 365 * int (nat (d div 365 + 1)) \<le> DayFromYear (1970 + int (nat (d div 365 + 1)))"
    by (rule DayFromYear_mono_nat)
  moreover have "0 \<le> d div 365" using True by (simp add: pos_imp_zdiv_nonneg_iff)
  ultimately show ?thesis using True by (simp add: DayFromYear_1970 add.assoc)
next
  case False
  then show ?thesis by (simp add: DayFromYear_1970)
qed

lemma YearFromDay_bounds:
  "DayFromYear (YearFromDay d) \<le> d \<and> d < DayFromYear (YearFromDay d + 1)"
  unfolding YearFromDay_def using year_down_le year_down_upper [OF start_year_upper] by blast

lemma YearFromDay_unique:
  assumes "DayFromYear y \<le> d" "d < DayFromYear (y + 1)"
  shows "YearFromDay d = y"
proof (rule ccontr)
  assume ne: "YearFromDay d \<noteq> y"
  let ?Y = "YearFromDay d"
  have b: "DayFromYear ?Y \<le> d" "d < DayFromYear (?Y + 1)" using YearFromDay_bounds by auto
  show False
  proof (cases "?Y < y")
    case True
    then have "DayFromYear (?Y + 1) \<le> DayFromYear y" by (intro DayFromYear_mono) simp
    then show False using b assms by simp
  next
    case False
    then have "y + 1 \<le> ?Y" using ne by simp
    then have "DayFromYear (y + 1) \<le> DayFromYear ?Y" by (rule DayFromYear_mono)
    then show False using b assms by simp
  qed
qed

lemma YearFromTime_ge_1970: "0 \<le> t \<Longrightarrow> 1970 \<le> YearFromTime t"
proof (rule ccontr)
  assume t: "0 \<le> t" and "\<not> 1970 \<le> YearFromTime t"
  then have "YearFromTime t + 1 \<le> 1970" by simp
  then have "DayFromYear (YearFromTime t + 1) \<le> DayFromYear 1970" by (rule DayFromYear_mono)
  moreover have "0 \<le> Day t" using t by (simp add: Day_def msPerDay_def pos_imp_zdiv_nonneg_iff)
  ultimately show False
    using YearFromDay_bounds [of "Day t"] by (simp add: YearFromTime_def DayFromYear_1970)
qed


lemma MonthFromTime_range: "0 \<le> MonthFromTime t \<and> MonthFromTime t \<le> 11"
  by (simp add: MonthFromTime_def Let_def)

lemma DayWithinYear_range:
  "0 \<le> DayWithinYear t \<and> DayWithinYear t < 365 + InLeapYear t"
proof -
  have "DaysInYear (YearFromTime t) = 365 + InLeapYear t"
    by (simp add: InLeapYear_def DaysInYear_def)
  then show ?thesis
    using YearFromDay_bounds [of "Day t"] DayFromYear_step [of "YearFromTime t"]
    by (simp add: DayWithinYear_def YearFromTime_def)
qed

text \<open>
  The month of \<open>t\<close> is the one month whose days hold the day of \<open>t\<close>: it starts on or
  before that day of the year, and the month after it starts later.
\<close>

lemma MonthFromTime_bounds:
  "month_start (MonthFromTime t) (InLeapYear t) \<le> DayWithinYear t
   \<and> DayWithinYear t < month_start (MonthFromTime t + 1) (InLeapYear t)"
  using DayWithinYear_range [of t]
  by (simp add: MonthFromTime_def month_start_def Let_def)

lemma month_start_mono:
  assumes "0 \<le> leap" "leap \<le> 1" "0 \<le> m" "m \<le> n" "n \<le> 12"
  shows "month_start m leap \<le> month_start n leap"
proof -
  have s: "month_start k leap \<le> month_start (k + 1) leap" if "0 \<le> k" "k \<le> 11" for k
  proof -
    from that have "k = 0 \<or> k = 1 \<or> k = 2 \<or> k = 3 \<or> k = 4 \<or> k = 5 \<or> k = 6 \<or> k = 7
                   \<or> k = 8 \<or> k = 9 \<or> k = 10 \<or> k = 11" by arith
    then show ?thesis using assms(1,2) by (auto simp: month_start_def)
  qed
  have "month_start m leap \<le> month_start (m + int j) leap" if "m + int j \<le> 12" for j
    using that
  proof (induction j)
    case 0
    then show ?case by simp
  next
    case (Suc j)
    then have "month_start m leap \<le> month_start (m + int j) leap" by simp
    moreover have "month_start (m + int j) leap \<le> month_start (m + int j + 1) leap"
      by (rule s) (use Suc.prems assms(3) in simp_all)
    ultimately show ?case by (simp add: ac_simps)
  qed
  from this [of "nat (n - m)"] show ?thesis using assms(4,5) by simp
qed

text \<open>No other month holds the day of \<open>t\<close>.\<close>

lemma MonthFromTime_unique:
  assumes "0 \<le> m" "m \<le> 11"
    and "month_start m (InLeapYear t) \<le> DayWithinYear t"
    and "DayWithinYear t < month_start (m + 1) (InLeapYear t)"
  shows "MonthFromTime t = m"
proof (rule ccontr)
  assume ne: "MonthFromTime t \<noteq> m"
  let ?M = "MonthFromTime t" and ?l = "InLeapYear t"
  have l: "0 \<le> ?l" "?l \<le> 1" by (simp_all add: InLeapYear_def)
  note r = MonthFromTime_range [of t] and b = MonthFromTime_bounds [of t]
  show False
  proof (cases "?M < m")
    case True
    then have "month_start (?M + 1) ?l \<le> month_start m ?l"
      by (intro month_start_mono [OF l]) (use r assms(2) in simp_all)
    then show False using b assms(3) by simp
  next
    case False
    then have "month_start (m + 1) ?l \<le> month_start ?M ?l"
      by (intro month_start_mono [OF l]) (use ne r assms(1) in simp_all)
    then show False using b assms(4) by simp
  qed
qed




text \<open>
  14 November 2023, 22:13:20 UTC; then 15 January, 29 February, 4 July and
  31 December 2024.
\<close>

lemma monthKey_of_example: "monthKey_of 1700000000000 = ''202311''"
  by code_simp

lemma monthKey_of_examples_2024:
  "monthKey_of 1705305600789 = ''202401'' \<and> monthKey_of 1709210096789 = ''202402''
   \<and> monthKey_of 1720051200789 = ''202407'' \<and> monthKey_of 1735689599789 = ''202412''"
  by code_simp

subsection \<open>Numbers\<close>


text \<open>
  Beyond \<open>2\<^sup>5\<^sup>3\<close> the odd integers are no doubles: \<open>2\<^sup>5\<^sup>3 + 1\<close> is \<open>2\<^sup>5\<^sup>3\<close> as a
  Number, and \<open>2\<^sup>5\<^sup>3 + 3\<close> is \<open>2\<^sup>5\<^sup>3 + 4\<close>.
\<close>

lemma Number_add_examples:
  "Number_add 9007199254740992 1 = 9007199254740992
   \<and> Number_add 9007199254740992 3 = 9007199254740996
   \<and> Number_subtract 2 (- 18014398509481988) = 18014398509481992"
  by code_simp

section \<open>The meter\<close>

lemma select_live_license_exists:
  "select_live_license jti d = Some lic \<Longrightarrow> list_ex (\<lambda>l. l_jti l = jti) (licenses d)"
  by (auto simp: select_live_license_def find_Some_iff list_ex_iff)

lemma select_live_license_jti:
  "select_live_license jti d = Some lic \<Longrightarrow> l_jti lic = jti \<and> \<not> l_revoked lic"
  by (auto simp: select_live_license_def find_Some_iff)

text \<open>The handler once the certificate has decoded and the license is live.\<close>

lemma usage_meter_live:
  assumes "decode_payload rt (mr_activationCert req) = Some cert"
    and "c_jti cert = Some jti"
    and "select_live_license jti d = Some lic"
    and "\<not> l_exp lic * 1000 < t_check"
  shows "usage_meter rt t_check today now d req =
     (case quota_check rt today d jti (mr_bucket req) (cost_of req)
             (dailyLimit_of lic (mr_bucket req)) of
        Some early \<Rightarrow> (d, early)
      | None \<Rightarrow>
          (case c_deviceId cert of
             None \<Rightarrow> (d, Thrown D1Error)
           | Some deviceId \<Rightarrow>
               (d\<lparr>usage := usage d @ [usage_row_of jti deviceId now req]\<rparr>,
                Response 200 Allowed)))"
  using assms select_live_license_exists [OF assms(3)]
  by (simp add: usage_meter_def cost_of_def usage_row_of_def insert_usage_def Let_def
      split: option.splits)

lemma quota_check_not_Allowed:
  "quota_check rt today d jti bucket cost lim \<noteq> Some (Response 200 Allowed)"
  by (simp add: quota_check_def Let_def split: option.splits)

lemma usage_meter_Allowed:
  assumes "usage_meter rt t_check today now d req = (d', Response 200 Allowed)"
  shows "\<exists>cert jti deviceId lic.
           decode_payload rt (mr_activationCert req) = Some cert \<and> c_jti cert = Some jti
         \<and> c_deviceId cert = Some deviceId \<and> select_live_license jti d = Some lic
         \<and> \<not> l_exp lic * 1000 < t_check
         \<and> quota_check rt today d jti (mr_bucket req) (cost_of req)
              (dailyLimit_of lic (mr_bucket req)) = None
         \<and> d' = d\<lparr>usage := usage d @ [usage_row_of jti deviceId now req]\<rparr>"
proof -
  obtain cert where c: "decode_payload rt (mr_activationCert req) = Some cert"
    using assms by (cases "decode_payload rt (mr_activationCert req)") (auto simp: usage_meter_def Let_def)
  obtain jti where j: "c_jti cert = Some jti"
    using assms c by (cases "c_jti cert") (auto simp: usage_meter_def Let_def)
  obtain lic where l: "select_live_license jti d = Some lic"
    using assms c j by (cases "select_live_license jti d") (auto simp: usage_meter_def Let_def)
  have e: "\<not> l_exp lic * 1000 < t_check"
    using assms c j l by (auto simp: usage_meter_def Let_def split: if_splits)
  note live = usage_meter_live [OF c j l e, of today now]
  have q: "quota_check rt today d jti (mr_bucket req) (cost_of req)
              (dailyLimit_of lic (mr_bucket req)) = None"
    using assms live quota_check_not_Allowed [of rt today d jti "mr_bucket req" "cost_of req" "dailyLimit_of lic (mr_bucket req)"]
    by (cases "quota_check rt today d jti (mr_bucket req) (cost_of req)
              (dailyLimit_of lic (mr_bucket req))") auto
  obtain deviceId where dv: "c_deviceId cert = Some deviceId"
    using assms live q by (cases "c_deviceId cert") auto
  have "d' = d\<lparr>usage := usage d @ [usage_row_of jti deviceId now req]\<rparr>"
    using assms live q dv by simp
  then show ?thesis using c j l e q dv by blast
qed

lemma digits_length1: "n < 10 \<Longrightarrow> length (digits n) = 1"
  by (subst digits.simps) simp

lemma digits_length2: "10 \<le> n \<Longrightarrow> n < 100 \<Longrightarrow> length (digits n) = 2"
  by (subst digits.simps) (simp add: digits_length1)

lemma digits_length3: "100 \<le> n \<Longrightarrow> n < 1000 \<Longrightarrow> length (digits n) = 3"
  by (subst digits.simps) (simp add: digits_length2)

lemma digits_length4: "1000 \<le> n \<Longrightarrow> n < 10000 \<Longrightarrow> length (digits n) = 4"
  by (subst digits.simps) (simp add: digits_length3)

lemma DayFromYear_10000: "DayFromYear 10000 = 2932897"
  by (simp add: DayFromYear_def)

lemma YearFromTime_le_9999:
  assumes "t < 253402300800000"
  shows "YearFromTime t \<le> 9999"
proof (rule ccontr)
  assume "\<not> YearFromTime t \<le> 9999"
  then have "10000 \<le> YearFromTime t" by simp
  then have "DayFromYear 10000 \<le> DayFromYear (YearFromTime t)" by (rule DayFromYear_mono)
  moreover have "Day t < 2932897"
    using assms by (simp add: Day_def msPerDay_def div_less_iff_less_mult)
  ultimately show False
    using YearFromDay_bounds [of "Day t"] by (simp add: YearFromTime_def DayFromYear_10000)
qed

lemma monthKey_of_length:
  assumes "0 \<le> now" "now < 253402300800000"
  shows "length (monthKey_of now) = 6"
proof -
  have y: "1970 \<le> YearFromTime now" "YearFromTime now \<le> 9999"
    using YearFromTime_ge_1970 [OF assms(1)] YearFromTime_le_9999 [OF assms(2)] by auto
  then have ly: "length (String_of (YearFromTime now)) = 4"
    by (simp add: String_of_def digits_length4)
  have m: "0 \<le> MonthFromTime now" "MonthFromTime now \<le> 11"
    using MonthFromTime_range [of now] by auto
  have lm: "length (padStart0 2 (String_of (MonthFromTime now + 1))) = 2"
  proof (cases "MonthFromTime now + 1 < 10")
    case True
    then have "length (String_of (MonthFromTime now + 1)) = 1"
      using m by (simp add: String_of_def digits_length1)
    then show ?thesis by (simp add: padStart0_def)
  next
    case False
    then have "length (String_of (MonthFromTime now + 1)) = 2"
      using m by (simp add: String_of_def digits_length2)
    then show ?thesis by (simp add: padStart0_def)
  qed
  show ?thesis
    by (simp add: monthKey_of_def getUTCFullYear_def getUTCMonth_def ly lm)
qed

subsection \<open>Admitted and denied calls\<close>

text \<open>
  Claim C8. Every admitted call of the meter appends exactly one row to usage; its cost
  is the cost of the request (1 when the request names none), its day key is
  \<open>now div 86400000\<close>, its minute key \<open>now div 60000\<close>, and its month key is the UTC
  year of \<open>now\<close> followed by the UTC month (1 to 12) on two digits: six characters for
  every \<open>now\<close> from 1970 to the end of year 9999. \<open>YearFromTime now\<close> is the year
  whose days hold the day of \<open>now\<close>, and \<open>MonthFromTime now\<close> the month of that year
  whose days hold it: the month starts on or before the day's place in the year, and
  the month after it starts later. No other table changes.
\<close>

theorem meter_admitted_appends_one_record:
  assumes "usage_meter rt t_check today now d req = (d', Response 200 Allowed)"
  shows "\<exists>u. d' = d\<lparr>usage := usage d @ [u]\<rparr>
           \<and> u_cost u = (case mr_cost req of None \<Rightarrow> 1 | Some c \<Rightarrow> c)
           \<and> u_bucket u = mr_bucket req
           \<and> u_day_key u = now div 86400000
           \<and> u_minute_key u = now div 60000
           \<and> u_month_key u
               = String_of (YearFromTime now) @ padStart0 2 (String_of (MonthFromTime now + 1))
           \<and> DayFromYear (YearFromTime now) \<le> now div 86400000
           \<and> now div 86400000 < DayFromYear (YearFromTime now + 1)
           \<and> 0 \<le> MonthFromTime now \<and> MonthFromTime now \<le> 11
           \<and> month_start (MonthFromTime now)
                 (if DaysInYear (YearFromTime now) = 366 then 1 else 0)
               \<le> now div 86400000 - DayFromYear (YearFromTime now)
           \<and> now div 86400000 - DayFromYear (YearFromTime now)
               < month_start (MonthFromTime now + 1)
                   (if DaysInYear (YearFromTime now) = 366 then 1 else 0)
           \<and> (0 \<le> now \<and> now < 253402300800000 \<longrightarrow> length (u_month_key u) = 6)"
proof -
  from usage_meter_Allowed [OF assms] obtain jti deviceId where
    d': "d' = d\<lparr>usage := usage d @ [usage_row_of jti deviceId now req]\<rparr>"
    by blast
  let ?u = "usage_row_of jti deviceId now req"
  have y: "DayFromYear (YearFromTime now) \<le> now div 86400000"
          "now div 86400000 < DayFromYear (YearFromTime now + 1)"
    using YearFromDay_bounds [of "Day now"] by (simp_all add: YearFromTime_def Day_def msPerDay_def)
  have m: "month_start (MonthFromTime now)
                 (if DaysInYear (YearFromTime now) = 366 then 1 else 0)
               \<le> now div 86400000 - DayFromYear (YearFromTime now)"
          "now div 86400000 - DayFromYear (YearFromTime now)
               < month_start (MonthFromTime now + 1)
                   (if DaysInYear (YearFromTime now) = 366 then 1 else 0)"
    using MonthFromTime_bounds [of now]
    by (simp_all add: InLeapYear_def DayWithinYear_def Day_def msPerDay_def)
  have k: "u_month_key ?u
           = String_of (YearFromTime now) @ padStart0 2 (String_of (MonthFromTime now + 1))"
    by (simp add: usage_row_of_def monthKey_of_def getUTCFullYear_def getUTCMonth_def)
  have len: "0 \<le> now \<and> now < 253402300800000 \<longrightarrow> length (u_month_key ?u) = 6"
    using monthKey_of_length [of now] by (simp add: usage_row_of_def)
  have f: "u_cost ?u = (case mr_cost req of None \<Rightarrow> 1 | Some c \<Rightarrow> c)" "u_bucket ?u = mr_bucket req"
    "u_day_key ?u = now div 86400000" "u_minute_key ?u = now div 60000"
    by (simp_all add: usage_row_of_def cost_of_def)
  show ?thesis
    using d' f k y m len MonthFromTime_range [of now] by blast
qed

text \<open>
  Two admitted calls: one on 14 November 2023, one on 29 February 2024 at 12:34:56 UTC
  (day 19782 since the epoch, day 59 of the leap year 2024, in the month that starts
  on day 31 and ends before day 60).
\<close>

lemma demo_meter_general:
  "usage_meter demo_runtime 1700000000000 1700000000001 1700000000002 demo_db
     (demo_meter_request ''general'')
   = (demo_db\<lparr>usage := usage demo_db @
        [\<lparr>u_jti = ''lic-1'', u_device_id = ''dev-A'', u_bucket = ''general'', u_cost = 1,
          u_day_key = 19675, u_minute_key = 28333333, u_month_key = ''202311''\<rparr>]\<rparr>,
      Response 200 Allowed)"
  by code_simp

lemma demo_meter_general_2024:
  "usage_meter demo_runtime 1709210096787 1709210096788 1709210096789 demo_db_2024
     (demo_meter_request ''general'')
   = (demo_db_2024\<lparr>usage := usage demo_db_2024 @
        [\<lparr>u_jti = ''lic-1'', u_device_id = ''dev-A'', u_bucket = ''general'', u_cost = 1,
          u_day_key = 19782, u_minute_key = 28486834, u_month_key = ''202402''\<rparr>]\<rparr>,
      Response 200 Allowed)"
  by code_simp

lemma demo_calendar_2024:
  "YearFromTime 1709210096789 = 2024 \<and> DayFromYear 2024 = 19723 \<and> DaysInYear 2024 = 366
   \<and> month_start 1 1 = 31 \<and> month_start 2 1 = 60"
  by code_simp

theorem meter_admitted_appends_one_record_witness:
  "usage_meter demo_runtime 1709210096787 1709210096788 1709210096789 demo_db_2024
     (demo_meter_request ''general'')
   = (demo_db_2024\<lparr>usage := usage demo_db_2024 @
        [\<lparr>u_jti = ''lic-1'', u_device_id = ''dev-A'', u_bucket = ''general'', u_cost = 1,
          u_day_key = 19782, u_minute_key = 28486834, u_month_key = ''202402''\<rparr>]\<rparr>,
      Response 200 Allowed)
   \<and> (\<exists>u. demo_db_2024\<lparr>usage := usage demo_db_2024 @
        [\<lparr>u_jti = ''lic-1'', u_device_id = ''dev-A'', u_bucket = ''general'', u_cost = 1,
          u_day_key = 19782, u_minute_key = 28486834, u_month_key = ''202402''\<rparr>]\<rparr>
         = demo_db_2024\<lparr>usage := usage demo_db_2024 @ [u]\<rparr>
       \<and> u_cost u = 1 \<and> u_day_key u = 19782 \<and> u_minute_key u = 28486834
       \<and> u_month_key u = ''2024'' @ padStart0 2 (String_of (MonthFromTime 1709210096789 + 1))
       \<and> length (u_month_key u) = 6)
   \<and> month_start (MonthFromTime 1709210096789) 1 \<le> 59
   \<and> 59 < month_start (MonthFromTime 1709210096789 + 1) 1
   \<and> usage_meter demo_runtime 1700000000000 1700000000001 1700000000002 demo_db
        (demo_meter_request ''general'')
      = (demo_db\<lparr>usage := usage demo_db @
           [\<lparr>u_jti = ''lic-1'', u_device_id = ''dev-A'', u_bucket = ''general'', u_cost = 1,
             u_day_key = 19675, u_minute_key = 28333333, u_month_key = ''202311''\<rparr>]\<rparr>,
         Response 200 Allowed)
   \<and> (\<exists>u. demo_db\<lparr>usage := usage demo_db @
           [\<lparr>u_jti = ''lic-1'', u_device_id = ''dev-A'', u_bucket = ''general'', u_cost = 1,
             u_day_key = 19675, u_minute_key = 28333333, u_month_key = ''202311''\<rparr>]\<rparr>
         = demo_db\<lparr>usage := usage demo_db @ [u]\<rparr>
       \<and> u_cost u = 1 \<and> u_day_key u = 1700000000002 div 86400000
       \<and> u_minute_key u = 1700000000002 div 60000 \<and> length (u_month_key u) = 6)"
proof -
  note h = demo_meter_general_2024
  note c = demo_calendar_2024
  from meter_admitted_appends_one_record [OF h]
  obtain u where u:
    "demo_db_2024\<lparr>usage := usage demo_db_2024 @
        [\<lparr>u_jti = ''lic-1'', u_device_id = ''dev-A'', u_bucket = ''general'', u_cost = 1,
          u_day_key = 19782, u_minute_key = 28486834, u_month_key = ''202402''\<rparr>]\<rparr>
         = demo_db_2024\<lparr>usage := usage demo_db_2024 @ [u]\<rparr>"
    "u_cost u = (case mr_cost (demo_meter_request ''general'') of None \<Rightarrow> 1 | Some c \<Rightarrow> c)"
    "u_day_key u = 1709210096789 div 86400000"
    "u_minute_key u = 1709210096789 div 60000"
    "u_month_key u = String_of (YearFromTime 1709210096789)
                     @ padStart0 2 (String_of (MonthFromTime 1709210096789 + 1))"
    "month_start (MonthFromTime 1709210096789)
         (if DaysInYear (YearFromTime 1709210096789) = 366 then 1 else 0)
       \<le> 1709210096789 div 86400000 - DayFromYear (YearFromTime 1709210096789)"
    "1709210096789 div 86400000 - DayFromYear (YearFromTime 1709210096789)
       < month_start (MonthFromTime 1709210096789 + 1)
           (if DaysInYear (YearFromTime 1709210096789) = 366 then 1 else 0)"
    "0 \<le> (1709210096789::int) \<and> (1709210096789::int) < 253402300800000
       \<longrightarrow> length (u_month_key u) = 6"
    by blast
  have s: "String_of 2024 = ''2024''" by code_simp
  have a: "\<exists>u. demo_db_2024\<lparr>usage := usage demo_db_2024 @
        [\<lparr>u_jti = ''lic-1'', u_device_id = ''dev-A'', u_bucket = ''general'', u_cost = 1,
          u_day_key = 19782, u_minute_key = 28486834, u_month_key = ''202402''\<rparr>]\<rparr>
         = demo_db_2024\<lparr>usage := usage demo_db_2024 @ [u]\<rparr>
       \<and> u_cost u = 1 \<and> u_day_key u = 19782 \<and> u_minute_key u = 28486834
       \<and> u_month_key u = ''2024'' @ padStart0 2 (String_of (MonthFromTime 1709210096789 + 1))
       \<and> length (u_month_key u) = 6"
    using u(1-5,8) by (intro exI [of _ u]) (simp add: demo_meter_request_def c s)
  have m: "month_start (MonthFromTime 1709210096789) 1 \<le> 59"
          "59 < month_start (MonthFromTime 1709210096789 + 1) 1"
    using u(6,7) by (simp_all add: c)
  note h' = demo_meter_general
  from meter_admitted_appends_one_record [OF h']
  obtain v where
    "demo_db\<lparr>usage := usage demo_db @
        [\<lparr>u_jti = ''lic-1'', u_device_id = ''dev-A'', u_bucket = ''general'', u_cost = 1,
          u_day_key = 19675, u_minute_key = 28333333, u_month_key = ''202311''\<rparr>]\<rparr>
         = demo_db\<lparr>usage := usage demo_db @ [v]\<rparr>"
    "u_cost v = (case mr_cost (demo_meter_request ''general'') of None \<Rightarrow> 1 | Some c \<Rightarrow> c)"
    "u_day_key v = 1700000000002 div 86400000"
    "u_minute_key v = 1700000000002 div 60000"
    "0 \<le> (1700000000002::int) \<and> (1700000000002::int) < 253402300800000 \<longrightarrow> length (u_month_key v) = 6"
    by blast
  then have b: "\<exists>u. demo_db\<lparr>usage := usage demo_db @
           [\<lparr>u_jti = ''lic-1'', u_device_id = ''dev-A'', u_bucket = ''general'', u_cost = 1,
             u_day_key = 19675, u_minute_key = 28333333, u_month_key = ''202311''\<rparr>]\<rparr>
         = demo_db\<lparr>usage := usage demo_db @ [u]\<rparr>
       \<and> u_cost u = 1 \<and> u_day_key u = 1700000000002 div 86400000
       \<and> u_minute_key u = 1700000000002 div 60000 \<and> length (u_month_key u) = 6"
    by (intro exI [of _ v]) (simp add: demo_meter_request_def)
  show ?thesis
    using h a m h' b by (intro conjI)
qed

lemma dailyLimit_of_eq:
  "dailyLimit_of lic bucket =
     (if truthy (bucket_daily lic bucket) then bucket_daily lic bucket else global_daily lic)"
  by (simp add: dailyLimit_of_def bucket_daily_def global_daily_def Let_def truthy_def
      split: option.splits)

lemma quota_check_falsy: "\<not> truthy lim \<Longrightarrow> quota_check rt today d jti bucket cost lim = None"
  by (simp add: quota_check_def)

text \<open>
  Claim C9. When the limit that the handler resolves for the requested bucket
  (\<^verbatim>\<open>bucketQuota.daily || quotas.daily\<close>) is falsy, that is absent or 0, the meter
  makes no quota check: for a certificate that decodes to a jti and a deviceId and a
  license that is live and not expired, it admits the request and appends its usage
  row, whatever usage the day already holds. The limit is resolved by truthiness: the
  per-bucket daily limit when that is there and not 0, the global daily limit
  otherwise.
\<close>

theorem meter_falsy_limit_admits:
  assumes "decode_payload rt (mr_activationCert req) = Some cert"
    and "c_jti cert = Some jti"
    and "c_deviceId cert = Some deviceId"
    and "select_live_license jti d = Some lic"
    and "\<not> l_exp lic * 1000 < t_check"
    and "dailyLimit_of lic (mr_bucket req) = None \<or> dailyLimit_of lic (mr_bucket req) = Some 0"
  shows "usage_meter rt t_check today now d req
           = (d\<lparr>usage := usage d @ [usage_row_of jti deviceId now req]\<rparr>,
              Response 200 Allowed)
         \<and> dailyLimit_of lic (mr_bucket req)
             = (if truthy (bucket_daily lic (mr_bucket req))
                then bucket_daily lic (mr_bucket req) else global_daily lic)"
proof -
  have "\<not> truthy (dailyLimit_of lic (mr_bucket req))"
    using assms(6) by (auto simp: truthy_def)
  then have "quota_check rt today d jti (mr_bucket req) (cost_of req)
               (dailyLimit_of lic (mr_bucket req)) = None"
    by (rule quota_check_falsy)
  then show ?thesis
    using usage_meter_live [OF assms(1,2,4,5), of today now] assms(3)
    by (simp add: dailyLimit_of_eq)
qed

lemma demo_decode_cert: "decode_payload demo_runtime demo_cert = Some demo_cert_claims"
  by code_simp

theorem meter_falsy_limit_admits_witness:
  "dailyLimit_of (hd (licenses demo_db_free)) ''free'' = Some 0
   \<and> sum_cost ''lic-1'' 19675 ''free'' demo_db_free = 1
   \<and> usage_meter demo_runtime 1700000000000 1700000000001 1700000000002 demo_db_free
        (demo_meter_request ''free'')
      = (demo_db_free\<lparr>usage := usage demo_db_free @
           [usage_row_of ''lic-1'' ''dev-A'' 1700000000002 (demo_meter_request ''free'')]\<rparr>,
         Response 200 Allowed)"
proof -
  have c: "decode_payload demo_runtime (mr_activationCert (demo_meter_request ''free''))
           = Some demo_cert_claims"
    using demo_decode_cert by (simp add: demo_meter_request_def)
  have j: "c_jti demo_cert_claims = Some ''lic-1''" and v: "c_deviceId demo_cert_claims = Some ''dev-A''"
    by (simp_all add: demo_cert_claims_def no_claims_def)
  have l: "select_live_license ''lic-1'' demo_db_free = Some (hd (licenses demo_db_free))"
    by code_simp
  have e: "\<not> l_exp (hd (licenses demo_db_free)) * 1000 < 1700000000000"
    by code_simp
  have z: "dailyLimit_of (hd (licenses demo_db_free)) ''free'' = Some 0"
    by code_simp
  have q: "dailyLimit_of (hd (licenses demo_db_free)) (mr_bucket (demo_meter_request ''free'')) = None
         \<or> dailyLimit_of (hd (licenses demo_db_free)) (mr_bucket (demo_meter_request ''free'')) = Some 0"
    using z by (simp add: demo_meter_request_def)
  have s: "sum_cost ''lic-1'' 19675 ''free'' demo_db_free = 1"
    by code_simp
  have m: "usage_meter demo_runtime 1700000000000 1700000000001 1700000000002 demo_db_free
        (demo_meter_request ''free'')
      = (demo_db_free\<lparr>usage := usage demo_db_free @
           [usage_row_of ''lic-1'' ''dev-A'' 1700000000002 (demo_meter_request ''free'')]\<rparr>,
         Response 200 Allowed)"
    using meter_falsy_limit_admits [OF c j v l e q] by (rule conjunct1)
  show ?thesis
    using z s m by (intro conjI)
qed










subsection \<open>Sequential calls\<close>


lemma select_live_license_usage [simp]:
  "select_live_license jti (d\<lparr>usage := u\<rparr>) = select_live_license jti d"
  by (simp add: select_live_license_def)










section \<open>The heartbeat\<close>

lemma update_last_seen_no_match:
  assumes "\<not> list_ex (\<lambda>a. a_jti a = jti \<and> a_device_id a = deviceId) (activations d)"
  shows "update_last_seen seen jti deviceId d = d"
proof -
  have "map (\<lambda>a. if a_jti a = jti \<and> a_device_id a = deviceId
                    then a\<lparr>a_last_seen := Some seen\<rparr> else a) (activations d) = activations d"
    using assms by (intro map_idI) (auto simp: list_ex_iff)
  then show ?thesis by (simp add: update_last_seen_def)
qed

lemma heartbeat_decoded:
  assumes "decode_payload rt (hr_activationCert req) = Some cert"
    and "c_jti cert = Some jti" and "c_deviceId cert = Some deviceId"
  shows "heartbeat rt now d req =
           ((case hr_userIdHash req of
               None \<Rightarrow> update_last_seen (now div 1000) jti deviceId d
             | Some userIdHash \<Rightarrow>
                 if userIdHash = [] then update_last_seen (now div 1000) jti deviceId d
                 else insert_or_ignore_user_seen
                        \<lparr>us_jti = jti, us_device_id = deviceId, us_user_hash = userIdHash\<rparr>
                        (update_last_seen (now div 1000) jti deviceId d)),
            Response 200 Ok)"
  using assms by (simp add: heartbeat_def Let_def)

lemma users_seen_update_last_seen [simp]:
  "users_seen (update_last_seen seen jti deviceId d) = users_seen d"
  by (simp add: update_last_seen_def)

lemma activations_insert_or_ignore [simp]:
  "activations (insert_or_ignore_user_seen u d) = activations d"
  by (simp add: insert_or_ignore_user_seen_def)

lemma insert_or_ignore_duplicate:
  assumes "list_ex (\<lambda>x. us_jti x = us_jti u \<and> us_device_id x = us_device_id u
                      \<and> us_user_hash x = us_user_hash u) (users_seen d)"
  shows "insert_or_ignore_user_seen u d = d"
  using assms by (simp add: insert_or_ignore_user_seen_def)

text \<open>
  Claim C10. For every certificate whose payload decodes to a jti and a deviceId, the
  heartbeat answers 200 \<open>{ok: true}\<close>, also when no activation row has that jti and
  deviceId: the UPDATE of last_seen then changes no row, and the handler never answers
  404. A sighting whose (jti, deviceId, userIdHash) is in users_seen already leaves
  users_seen as it is, as does a request with no userIdHash or an empty one.
\<close>

theorem heartbeat_ok_without_binding:
  assumes "decode_payload rt (hr_activationCert req) = Some cert"
    and "c_jti cert = Some jti" and "c_deviceId cert = Some deviceId"
  shows "snd (heartbeat rt now d req) = Response 200 Ok
       \<and> (\<not> list_ex (\<lambda>a. a_jti a = jti \<and> a_device_id a = deviceId) (activations d)
            \<longrightarrow> activations (fst (heartbeat rt now d req)) = activations d)
       \<and> (\<forall>h. hr_userIdHash req = Some h
                \<and> list_ex (\<lambda>x. us_jti x = jti \<and> us_device_id x = deviceId \<and> us_user_hash x = h)
                     (users_seen d)
            \<longrightarrow> users_seen (fst (heartbeat rt now d req)) = users_seen d)
       \<and> (hr_userIdHash req = None \<or> hr_userIdHash req = Some []
            \<longrightarrow> users_seen (fst (heartbeat rt now d req)) = users_seen d)"
proof -
  note hb = heartbeat_decoded [OF assms, of now d]
  have r: "snd (heartbeat rt now d req) = Response 200 Ok" by (simp add: hb)
  have a: "activations (fst (heartbeat rt now d req)) = activations d"
    if "\<not> list_ex (\<lambda>a. a_jti a = jti \<and> a_device_id a = deviceId) (activations d)"
    using update_last_seen_no_match [OF that] by (simp add: hb split: option.splits)
  have u: "users_seen (fst (heartbeat rt now d req)) = users_seen d"
    if "hr_userIdHash req = Some h"
      and "list_ex (\<lambda>x. us_jti x = jti \<and> us_device_id x = deviceId \<and> us_user_hash x = h)
             (users_seen d)" for h
    using that by (simp add: hb insert_or_ignore_user_seen_def)
  have n: "users_seen (fst (heartbeat rt now d req)) = users_seen d"
    if "hr_userIdHash req = None \<or> hr_userIdHash req = Some []"
    using that by (auto simp: hb)
  show ?thesis using r a u n by blast
qed

text \<open>
  The example database has no license ''lic-9'' and no activation of it; the second
  heartbeat repeats the sighting that the first one recorded.
\<close>

theorem heartbeat_ok_without_binding_witness:
  "heartbeat demo_runtime 1700000000000 demo_db
     \<lparr>hr_activationCert = demo_unbound_cert, hr_userIdHash = Some ''aGFzaA''\<rparr>
   = (demo_db\<lparr>users_seen :=
        [\<lparr>us_jti = ''lic-9'', us_device_id = ''dev-Z'', us_user_hash = ''aGFzaA''\<rparr>]\<rparr>,
      Response 200 Ok)
   \<and> heartbeat demo_runtime 1700000060000
       (demo_db\<lparr>users_seen :=
          [\<lparr>us_jti = ''lic-9'', us_device_id = ''dev-Z'', us_user_hash = ''aGFzaA''\<rparr>]\<rparr>)
       \<lparr>hr_activationCert = demo_unbound_cert, hr_userIdHash = Some ''aGFzaA''\<rparr>
     = (demo_db\<lparr>users_seen :=
          [\<lparr>us_jti = ''lic-9'', us_device_id = ''dev-Z'', us_user_hash = ''aGFzaA''\<rparr>]\<rparr>,
        Response 200 Ok)
   \<and> snd (heartbeat demo_runtime 1700000000000 demo_db
       \<lparr>hr_activationCert = demo_unbound_cert, hr_userIdHash = Some ''aGFzaA''\<rparr>)
     = Response 200 Ok"
proof -
  have c: "decode_payload demo_runtime
             (hr_activationCert \<lparr>hr_activationCert = demo_unbound_cert, hr_userIdHash = Some ''aGFzaA''\<rparr>)
           = Some demo_unbound_claims"
    by code_simp
  have j: "c_jti demo_unbound_claims = Some ''lic-9''"
    and v: "c_deviceId demo_unbound_claims = Some ''dev-Z''"
    by (simp_all add: demo_unbound_claims_def no_claims_def)
  have e1: "heartbeat demo_runtime 1700000000000 demo_db
     \<lparr>hr_activationCert = demo_unbound_cert, hr_userIdHash = Some ''aGFzaA''\<rparr>
   = (demo_db\<lparr>users_seen :=
        [\<lparr>us_jti = ''lic-9'', us_device_id = ''dev-Z'', us_user_hash = ''aGFzaA''\<rparr>]\<rparr>,
      Response 200 Ok)"
    by code_simp
  have e2: "heartbeat demo_runtime 1700000060000
       (demo_db\<lparr>users_seen :=
          [\<lparr>us_jti = ''lic-9'', us_device_id = ''dev-Z'', us_user_hash = ''aGFzaA''\<rparr>]\<rparr>)
       \<lparr>hr_activationCert = demo_unbound_cert, hr_userIdHash = Some ''aGFzaA''\<rparr>
     = (demo_db\<lparr>users_seen :=
          [\<lparr>us_jti = ''lic-9'', us_device_id = ''dev-Z'', us_user_hash = ''aGFzaA''\<rparr>]\<rparr>,
        Response 200 Ok)"
    by code_simp
  from heartbeat_ok_without_binding [OF c j v, of 1700000000000 demo_db]
  have "snd (heartbeat demo_runtime 1700000000000 demo_db
       \<lparr>hr_activationCert = demo_unbound_cert, hr_userIdHash = Some ''aGFzaA''\<rparr>)
     = Response 200 Ok"
    by (rule conjunct1)
  then show ?thesis using e1 e2 by (intro conjI)
qed

section \<open>What later statements keep\<close>

lemma later_refl: "later d d"
  by (simp add: later_def)

lemma later_step: "later d d1 \<Longrightarrow> statement d1 d2 \<Longrightarrow> later d d2"
  by (simp add: later_def)

lemma later_trans: "later d d1 \<Longrightarrow> later d1 d2 \<Longrightarrow> later d d2"
  by (simp add: later_def)

lemma statement_later: "statement d d' \<Longrightarrow> later d d'"
  by (simp add: later_def)

text \<open>Every handler, run to its end, is a sequence of these statements.\<close>

lemma activate_start_later: "later d (fst (activate_start rt now challenge activationId d req))"
  by (auto simp: activate_start_def later_refl split: option.splits
      intro: statement_later st_session)

lemma activate_finish_later: "later d (fst (activate_finish rt t_seen t_cert deviceId d req))"
  by (auto simp: activate_finish_def later_refl split: option.splits
      intro: statement_later st_activation)

lemma heartbeat_later: "later d (fst (heartbeat rt now d req))"
  by (auto simp: heartbeat_def later_refl Let_def split: option.splits
      intro: statement_later st_last_seen later_step [OF statement_later [OF st_last_seen] st_user_seen])

lemma usage_meter_later: "later d (fst (usage_meter rt t_check today now d req))"
  by (auto simp: usage_meter_def later_refl Let_def split: option.splits
      intro: statement_later st_usage)

lemma redeem_issue_later: "later d (fst (redeem_issue rt t_issue jti d req coupon))"
  by (auto simp: redeem_issue_def later_refl Let_def split: option.splits
      intro: later_step [OF statement_later [OF st_license] st_current_uses])

lemma coupons_redeem_later: "later d (fst (coupons_redeem rt t_check t_issue jti d req))"
  by (auto simp: coupons_redeem_def later_refl redeem_issue_later split: sum.splits)

lemma agencies_create_later: "later d (fst (agencies_create rt h d req))"
  by (auto simp: agencies_create_def later_refl split: option.splits
      intro: statement_later st_agency)

lemma issue_loop_later: "later d (fst (issue_loop rt uuid clock req i k d issuedTokens))"
proof (induction k arbitrary: i d issuedTokens)
  case 0
  then show ?case by (simp add: later_refl)
next
  case (Suc k)
  show ?case
    by (auto simp: Let_def later_refl split: option.splits
        intro: later_trans [OF statement_later [OF st_license] Suc])
qed

lemma licenses_issue_later: "later d (fst (licenses_issue rt h uuid clock d req))"
  by (auto simp: licenses_issue_def later_refl issue_loop_later split: option.splits)

lemma licenses_revoke_later: "later d (fst (licenses_revoke rt h d jti))"
  by (auto simp: licenses_revoke_def later_refl split: option.splits
      intro: statement_later st_revoke)

lemma coupons_create_later: "later d (fst (coupons_create rt h d req))"
  by (auto simp: coupons_create_def later_refl split: option.splits
      intro: statement_later st_coupon)

subsection \<open>A revoked license stays revoked\<close>

lemma revoked_license_iff:
  "revoked_license jti d \<longleftrightarrow>
     (\<exists>l \<in> set (licenses d). l_jti l = jti) \<and> (\<forall>l \<in> set (licenses d). l_jti l = jti \<longrightarrow> l_revoked l)"
  unfolding revoked_license_def select_live_license_def list_ex_iff find_None_iff by blast

lemma revoke_row_jti: "l_jti (revoke_row j l) = l_jti l"
  by (simp add: revoke_row_def)

lemma revoke_row_revoked: "l_revoked l \<Longrightarrow> l_revoked (revoke_row j l)"
  by (simp add: revoke_row_def)

lemma revoke_row_self: "l_jti l = j \<Longrightarrow> l_revoked (revoke_row j l)"
  by (simp add: revoke_row_def)

lemma licenses_revoke_batch: "licenses (revoke_batch j d) = map (revoke_row j) (licenses d)"
  by (simp add: revoke_batch_def revoke_row_def [abs_def])

lemma revoked_license_revoke_batch:
  assumes "revoked_license jti d"
  shows "revoked_license jti (revoke_batch j d)"
proof -
  from assms obtain l0 where l0: "l0 \<in> set (licenses d)" "l_jti l0 = jti"
    unfolding revoked_license_iff by blast
  have all: "\<And>l. l \<in> set (licenses d) \<Longrightarrow> l_jti l = jti \<Longrightarrow> l_revoked l"
    using assms unfolding revoked_license_iff by blast
  have ex: "\<exists>l \<in> set (map (revoke_row j) (licenses d)). l_jti l = jti"
  proof
    have "revoke_row j l0 \<in> revoke_row j ` set (licenses d)" using l0(1) by (rule imageI)
    then show "revoke_row j l0 \<in> set (map (revoke_row j) (licenses d))" by (simp only: set_map)
    show "l_jti (revoke_row j l0) = jti" using l0(2) by (simp only: revoke_row_jti)
  qed
  have al: "\<forall>l \<in> set (map (revoke_row j) (licenses d)). l_jti l = jti \<longrightarrow> l_revoked l"
  proof (intro ballI impI)
    fix l assume "l \<in> set (map (revoke_row j) (licenses d))" and j: "l_jti l = jti"
    then have "l \<in> revoke_row j ` set (licenses d)" by (simp only: set_map)
    then obtain x where x: "x \<in> set (licenses d)" "l = revoke_row j x" by (rule imageE)
    have "l_jti x = jti" using j x(2) by (simp only: revoke_row_jti)
    then have "l_revoked x" using x(1) by (rule all [rotated])
    then show "l_revoked l" unfolding x(2) by (rule revoke_row_revoked)
  qed
  show ?thesis
    unfolding revoked_license_iff licenses_revoke_batch using ex al by (rule conjI)
qed

lemma revoke_batch_revoked_license:
  assumes "list_ex (\<lambda>l. l_jti l = jti) (licenses d)"
  shows "revoked_license jti (revoke_batch jti d)"
proof -
  from assms obtain l0 where l0: "l0 \<in> set (licenses d)" "l_jti l0 = jti"
    unfolding list_ex_iff by blast
  have ex: "\<exists>l \<in> set (map (revoke_row jti) (licenses d)). l_jti l = jti"
  proof
    have "revoke_row jti l0 \<in> revoke_row jti ` set (licenses d)" using l0(1) by (rule imageI)
    then show "revoke_row jti l0 \<in> set (map (revoke_row jti) (licenses d))"
      by (simp only: set_map)
    show "l_jti (revoke_row jti l0) = jti" using l0(2) by (simp only: revoke_row_jti)
  qed
  have al: "\<forall>l \<in> set (map (revoke_row jti) (licenses d)). l_jti l = jti \<longrightarrow> l_revoked l"
  proof (intro ballI impI)
    fix l assume "l \<in> set (map (revoke_row jti) (licenses d))" and j: "l_jti l = jti"
    then have "l \<in> revoke_row jti ` set (licenses d)" by (simp only: set_map)
    then obtain x where x: "x \<in> set (licenses d)" "l = revoke_row jti x" by (rule imageE)
    have "l_jti x = jti" using j x(2) by (simp only: revoke_row_jti)
    then show "l_revoked l" unfolding x(2) by (rule revoke_row_self)
  qed
  show ?thesis
    unfolding revoked_license_iff licenses_revoke_batch using ex al by (rule conjI)
qed

lemma revoked_license_licenses:
  "licenses d' = licenses d \<Longrightarrow> revoked_license jti d' = revoked_license jti d"
  by (simp add: revoked_license_def select_live_license_def)

lemma revoked_license_append:
  assumes "revoked_license jti d" and "licenses d' = licenses d @ [l]"
    and "\<not> list_ex (\<lambda>x. l_jti x = l_jti l) (licenses d)"
  shows "revoked_license jti d'"
proof -
  from assms(1) obtain l0 where l0: "l0 \<in> set (licenses d)" "l_jti l0 = jti"
    unfolding revoked_license_iff by blast
  have all: "\<And>x. x \<in> set (licenses d) \<Longrightarrow> l_jti x = jti \<Longrightarrow> l_revoked x"
    using assms(1) unfolding revoked_license_iff by blast
  have ne: "l_jti l \<noteq> jti" using assms(3) l0 unfolding list_ex_iff by blast
  show ?thesis
    unfolding revoked_license_iff assms(2) using l0 all ne by auto
qed

lemma insert_license_Some:
  assumes "insert_license l d = Some d'"
  shows "licenses d' = licenses d @ [l] \<and> \<not> list_ex (\<lambda>x. l_jti x = l_jti l) (licenses d)"
proof (cases "list_ex (\<lambda>x. l_jti x = l_jti l) (licenses d)")
  case True
  then show ?thesis using assms by (simp add: insert_license_def)
next
  case False
  then have "d' = d\<lparr>licenses := licenses d @ [l]\<rparr>"
    using assms by (simp add: insert_license_def split: if_splits)
  then show ?thesis using False by simp
qed

lemma statement_licenses:
  assumes "statement d d'"
  shows "licenses d' = licenses d
       \<or> (\<exists>l. licenses d' = licenses d @ [l] \<and> \<not> list_ex (\<lambda>x. l_jti x = l_jti l) (licenses d))
       \<or> (\<exists>j. d' = revoke_batch j d)"
  using assms
proof (cases rule: statement.cases)
  case (st_agency g)
  then show ?thesis by (auto simp: insert_agency_def split: if_splits)
next
  case (st_license l)
  then show ?thesis using insert_license_Some by blast
next
  case (st_session s)
  then show ?thesis by (auto simp: insert_activation_session_def split: if_splits)
next
  case (st_activation a)
  then show ?thesis by (auto simp: insert_activation_def split: if_splits)
next
  case (st_usage u)
  then show ?thesis by (auto simp: insert_usage_def split: if_splits)
next
  case (st_user_seen us)
  then show ?thesis by (simp add: insert_or_ignore_user_seen_def)
next
  case (st_coupon c)
  then show ?thesis by (auto simp: insert_coupon_def split: if_splits)
next
  case (st_last_seen seen j deviceId)
  then show ?thesis by (simp add: update_last_seen_def)
next
  case (st_current_uses couponCode)
  then show ?thesis by (simp add: increment_current_uses_def)
next
  case (st_revoke j)
  then show ?thesis by blast
qed

lemma statement_revoked_license:
  assumes "statement d d'" and "revoked_license jti d"
  shows "revoked_license jti d'"
  using statement_licenses [OF assms(1)] assms(2)
    revoked_license_licenses [of d' d jti] revoked_license_append [of jti d d']
    revoked_license_revoke_batch [of jti d]
  by blast

lemma later_revoked_license:
  assumes "later d d'" and "revoked_license jti d"
  shows "revoked_license jti d'"
  using assms unfolding later_def
  by (induction rule: rtranclp_induct) (blast intro: statement_revoked_license)+

lemma usage_meter_revoked:
  assumes "revoked_license jti d"
    and "decode_payload rt (mr_activationCert req) = Some cert" and "c_jti cert = Some jti"
  shows "usage_meter rt t_check today now d req
         = (d, Response 403 (Error ''Invalid or expired license.''))"
  using assms by (simp add: usage_meter_def revoked_license_def Let_def)

lemma licenses_revoke_200:
  assumes "licenses_revoke rt h d jti = (d1, Response 200 b)"
  shows "d1 = revoke_batch jti d \<and> b = OkJti jti"
proof (cases "adminAuth rt h")
  case None
  then show ?thesis using assms by (simp add: licenses_revoke_def)
next
  case (Some r)
  then have "r = Response 401 (Error ''Unauthorized'')"
    by (simp add: adminAuth_def Let_def split: if_splits)
  then show ?thesis using assms Some by (simp add: licenses_revoke_def)
qed

lemma revoke_batch_activations:
  "\<forall>a \<in> set (activations (revoke_batch jti d)). a_jti a = jti \<longrightarrow> a_revoked a"
proof (intro ballI impI)
  fix a assume a: "a \<in> set (activations (revoke_batch jti d))" and j: "a_jti a = jti"
  let ?f = "\<lambda>a. if a_jti a = jti then a\<lparr>a_revoked := True\<rparr> else a"
  have "activations (revoke_batch jti d) = map ?f (activations d)"
    by (simp add: revoke_batch_def)
  then have "a \<in> ?f ` set (activations d)" using a by (simp only: set_map)
  then obtain x where x: "a = ?f x" by (rule imageE)
  show "a_revoked a"
  proof (cases "a_jti x = jti")
    case True
    then show ?thesis by (simp add: x)
  next
    case False
    then show ?thesis using j by (simp add: x)
  qed
qed

text \<open>
  Claim C5, as amended. When the revoke endpoint has answered 200 for a license that
  has a row, every row of that license and every activation of it has its revoked flag
  set, and from then on, whatever statements the worker runs in between, every meter
  call whose certificate decodes to that license is answered 403 and leaves the
  database as it is (no usage row is appended). Nothing is said of the heartbeat, which
  has no test of revocation.
\<close>

theorem revoke_cascade_meter:
  assumes "licenses_revoke rt h d jti = (d1, Response 200 b)"
    and "list_ex (\<lambda>l. l_jti l = jti) (licenses d)"
  shows "(\<forall>l \<in> set (licenses d1). l_jti l = jti \<longrightarrow> l_revoked l)
       \<and> (\<forall>a \<in> set (activations d1). a_jti a = jti \<longrightarrow> a_revoked a)
       \<and> (\<forall>d2 req cert t_check today now.
            later d1 d2 \<and> decode_payload rt (mr_activationCert req) = Some cert
            \<and> c_jti cert = Some jti
            \<longrightarrow> usage_meter rt t_check today now d2 req
                = (d2, Response 403 (Error ''Invalid or expired license.'')))"
proof -
  have d1: "d1 = revoke_batch jti d" using licenses_revoke_200 [OF assms(1)] by (rule conjunct1)
  have r: "revoked_license jti d1" unfolding d1 by (rule revoke_batch_revoked_license [OF assms(2)])
  have l: "\<forall>l \<in> set (licenses d1). l_jti l = jti \<longrightarrow> l_revoked l"
    using r unfolding revoked_license_iff by (rule conjunct2)
  have a: "\<forall>a \<in> set (activations d1). a_jti a = jti \<longrightarrow> a_revoked a"
    unfolding d1 by (rule revoke_batch_activations)
  have m: "\<forall>d2 req cert t_check today now.
            later d1 d2 \<and> decode_payload rt (mr_activationCert req) = Some cert
            \<and> c_jti cert = Some jti
            \<longrightarrow> usage_meter rt t_check today now d2 req
                = (d2, Response 403 (Error ''Invalid or expired license.''))"
  proof (intro allI impI)
    fix d2 and req :: meter_request and cert t_check today now
    assume h: "later d1 d2 \<and> decode_payload rt (mr_activationCert req) = Some cert
            \<and> c_jti cert = Some jti"
    then have "revoked_license jti d2" using later_revoked_license r by blast
    then show "usage_meter rt t_check today now d2 req
                = (d2, Response 403 (Error ''Invalid or expired license.''))"
      using h usage_meter_revoked by blast
  qed
  show ?thesis using l a m by (intro conjI)
qed

lemma demo_revoke:
  "licenses_revoke demo_runtime demo_admin demo_db ''lic-1''
   = (demo_revoked_db, Response 200 (OkJti ''lic-1''))"
  by code_simp

text \<open>
  After the revocation of ''lic-1'' a heartbeat of its device comes in, and then a
  meter call with the certificate of that device.
\<close>

theorem revoke_cascade_meter_witness:
  "licenses_revoke demo_runtime demo_admin demo_db ''lic-1''
   = (demo_revoked_db, Response 200 (OkJti ''lic-1''))
   \<and> map l_revoked (licenses demo_revoked_db) = [True]
   \<and> map a_revoked (activations demo_revoked_db) = [True]
   \<and> usage_meter demo_runtime 1700000120000 1700000120001 1700000120002
        (fst (heartbeat demo_runtime 1700000060000 demo_revoked_db
                \<lparr>hr_activationCert = demo_cert, hr_userIdHash = None\<rparr>))
        (demo_meter_request ''general'')
     = (fst (heartbeat demo_runtime 1700000060000 demo_revoked_db
                \<lparr>hr_activationCert = demo_cert, hr_userIdHash = None\<rparr>),
        Response 403 (Error ''Invalid or expired license.''))"
proof -
  let ?d2 = "fst (heartbeat demo_runtime 1700000060000 demo_revoked_db
                \<lparr>hr_activationCert = demo_cert, hr_userIdHash = None\<rparr>)"
  have e: "list_ex (\<lambda>l. l_jti l = ''lic-1'') (licenses demo_db)"
    by (simp add: demo_db_def demo_license_def)
  have l: "later demo_revoked_db ?d2"
    by (rule heartbeat_later)
  have c: "decode_payload demo_runtime (mr_activationCert (demo_meter_request ''general''))
           = Some demo_cert_claims"
    using demo_decode_cert by (simp add: demo_meter_request_def)
  have j: "c_jti demo_cert_claims = Some ''lic-1''"
    by (simp add: demo_cert_claims_def no_claims_def)
  have r: "map l_revoked (licenses demo_revoked_db) = [True]"
    and a: "map a_revoked (activations demo_revoked_db) = [True]"
    by (simp_all add: demo_revoked_db_def)
  have all: "\<forall>d2 req cert t_check today now.
            later demo_revoked_db d2 \<and> decode_payload demo_runtime (mr_activationCert req) = Some cert
            \<and> c_jti cert = Some ''lic-1''
            \<longrightarrow> usage_meter demo_runtime t_check today now d2 req
                = (d2, Response 403 (Error ''Invalid or expired license.''))"
    using revoke_cascade_meter [OF demo_revoke e] by (elim conjE)
  have m: "usage_meter demo_runtime 1700000120000 1700000120001 1700000120002 ?d2
             (demo_meter_request ''general'')
           = (?d2, Response 403 (Error ''Invalid or expired license.''))"
    by (rule all [rule_format, of ?d2 "demo_meter_request ''general''" demo_cert_claims])
       (intro conjI l c j)
  show ?thesis using demo_revoke r a m by (intro conjI)
qed

text \<open>
  Claim C5 as stated fails for the heartbeat: after the revocation the heartbeat of a
  device of the license still answers 200 and updates last_seen.
\<close>

theorem revoke_heartbeat_counterexample:
  "licenses_revoke demo_runtime demo_admin demo_db ''lic-1''
   = (demo_revoked_db, Response 200 (OkJti ''lic-1''))
   \<and> heartbeat demo_runtime 1700000060000 demo_revoked_db
        \<lparr>hr_activationCert = demo_cert, hr_userIdHash = None\<rparr>
     = (demo_revoked_db\<lparr>activations :=
          [demo_activation\<lparr>a_revoked := True, a_last_seen := Some 1700000060\<rparr>]\<rparr>,
        Response 200 Ok)"
  by code_simp

section \<open>The activation\<close>

subsection \<open>Sessions and activations are never removed\<close>

lemma find_append_Some:
  "find P xs = Some x \<Longrightarrow> find P (xs @ ys) = Some x"
  by (induction xs) (simp_all split: if_splits)

lemma statement_sessions:
  assumes "statement d d'"
  shows "activation_sessions d' = activation_sessions d
       \<or> (\<exists>s. activation_sessions d' = activation_sessions d @ [s])"
  using assms
proof (cases rule: statement.cases)
  case (st_agency g)
  then show ?thesis by (auto simp: insert_agency_def split: if_splits)
next
  case (st_license l)
  then have "licenses d' = licenses d @ [l]" using insert_license_Some by blast
  then have "d' = d\<lparr>licenses := licenses d @ [l]\<rparr>"
    using st_license by (simp add: insert_license_def split: if_splits)
  then show ?thesis by simp
next
  case (st_session s)
  then show ?thesis by (auto simp: insert_activation_session_def split: if_splits)
next
  case (st_activation a)
  then show ?thesis by (auto simp: insert_activation_def split: if_splits)
next
  case (st_usage u)
  then show ?thesis by (auto simp: insert_usage_def split: if_splits)
next
  case (st_user_seen us)
  then show ?thesis by (simp add: insert_or_ignore_user_seen_def)
next
  case (st_coupon c)
  then show ?thesis by (auto simp: insert_coupon_def split: if_splits)
next
  case (st_last_seen seen j deviceId)
  then show ?thesis by (simp add: update_last_seen_def)
next
  case (st_current_uses couponCode)
  then show ?thesis by (simp add: increment_current_uses_def)
next
  case (st_revoke j)
  then show ?thesis by (simp add: revoke_batch_def)
qed

lemma later_session:
  assumes "later d d'"
    and "find (\<lambda>s. s_activation_id s = aid) (activation_sessions d) = Some session"
  shows "find (\<lambda>s. s_activation_id s = aid) (activation_sessions d') = Some session"
  using assms unfolding later_def
proof (induction rule: rtranclp_induct)
  case base
  then show ?case by simp
next
  case (step y z)
  then have f: "find (\<lambda>s. s_activation_id s = aid) (activation_sessions y) = Some session"
    by simp
  from statement_sessions [OF step.hyps(2)] show ?case
  proof
    assume "activation_sessions z = activation_sessions y"
    then show ?thesis using f by simp
  next
    assume "\<exists>s. activation_sessions z = activation_sessions y @ [s]"
    then obtain s where "activation_sessions z = activation_sessions y @ [s]" ..
    then show ?thesis using find_append_Some [OF f] by simp
  qed
qed

lemma last_seen_map_ids:
  "map a_activation_id
     (map (\<lambda>a. if a_jti a = jti \<and> a_device_id a = deviceId
                then a\<lparr>a_last_seen := Some seen\<rparr> else a) xs)
   = map a_activation_id xs"
  by (induction xs) simp_all

lemma revoked_map_ids:
  "map a_activation_id (map (\<lambda>a. if a_jti a = jti then a\<lparr>a_revoked := True\<rparr> else a) xs)
   = map a_activation_id xs"
  by (induction xs) simp_all

lemma statement_activation_ids:
  assumes "statement d d'"
  shows "\<exists>ids. map a_activation_id (activations d') = map a_activation_id (activations d) @ ids"
  using assms
proof (cases rule: statement.cases)
  case (st_agency g)
  then show ?thesis by (auto simp: insert_agency_def split: if_splits)
next
  case (st_license l)
  then have "d' = d\<lparr>licenses := licenses d @ [l]\<rparr>"
    by (simp add: insert_license_def split: if_splits)
  then show ?thesis by simp
next
  case (st_session s)
  then show ?thesis by (auto simp: insert_activation_session_def split: if_splits)
next
  case (st_activation a)
  then show ?thesis by (auto simp: insert_activation_def split: if_splits)
next
  case (st_usage u)
  then show ?thesis by (auto simp: insert_usage_def split: if_splits)
next
  case (st_user_seen us)
  then show ?thesis by (simp add: insert_or_ignore_user_seen_def)
next
  case (st_coupon c)
  then show ?thesis by (auto simp: insert_coupon_def split: if_splits)
next
  case (st_last_seen seen j deviceId)
  then have "activations d' = map (\<lambda>a. if a_jti a = j \<and> a_device_id a = deviceId
                then a\<lparr>a_last_seen := Some seen\<rparr> else a) (activations d)"
    by (simp add: update_last_seen_def)
  then have "map a_activation_id (activations d') = map a_activation_id (activations d) @ []"
    by (simp only: last_seen_map_ids append_Nil2)
  then show ?thesis by (rule exI)
next
  case (st_current_uses couponCode)
  then show ?thesis by (simp add: increment_current_uses_def)
next
  case (st_revoke j)
  then have "activations d' = map (\<lambda>a. if a_jti a = j then a\<lparr>a_revoked := True\<rparr> else a)
                                (activations d)"
    by (simp add: revoke_batch_def)
  then have "map a_activation_id (activations d') = map a_activation_id (activations d) @ []"
    by (simp only: revoked_map_ids append_Nil2)
  then show ?thesis by (rule exI)
qed

lemma list_ex_activation_id:
  "list_ex (\<lambda>a. a_activation_id a = aid) xs \<longleftrightarrow> aid \<in> set (map a_activation_id xs)"
  by (induction xs) auto

lemma later_activation_id:
  assumes "later d d'"
    and "list_ex (\<lambda>a. a_activation_id a = aid) (activations d)"
  shows "list_ex (\<lambda>a. a_activation_id a = aid) (activations d')"
  using assms unfolding later_def
proof (induction rule: rtranclp_induct)
  case base
  then show ?case by simp
next
  case (step y z)
  then have "aid \<in> set (map a_activation_id (activations y))"
    by (simp only: list_ex_activation_id)
  moreover from statement_activation_ids [OF step.hyps(2)] obtain ids where
    "map a_activation_id (activations z) = map a_activation_id (activations y) @ ids" ..
  ultimately have "aid \<in> set (map a_activation_id (activations z))" by simp
  then show ?case by (simp only: list_ex_activation_id)
qed

text \<open>A finish for a session whose activation is there already.\<close>

lemma activate_finish_again:
  assumes "find (\<lambda>s. s_activation_id s = fr_activationId req) (activation_sessions d) = Some session"
    and "list_ex (\<lambda>a. a_activation_id a = fr_activationId req) (activations d)"
  shows "activate_finish rt t_seen t_cert deviceId d req
         = (d, Thrown (if fr_credential req = None then JsError else D1Error))"
proof (cases "fr_credential req")
  case None
  then show ?thesis using assms(1) by (simp add: activate_finish_def)
next
  case (Some credential)
  show ?thesis
  proof (cases "cr_id credential")
    case None
    then show ?thesis using assms(1) Some by (simp add: activate_finish_def)
  next
    case (Some credential_id)
    then show ?thesis
      using assms \<open>fr_credential req = Some credential\<close>
      by (simp add: activate_finish_def insert_activation_def)
  qed
qed

text \<open>What a finish that answers 200 has done.\<close>

lemma activate_finish_200:
  assumes "activate_finish rt t_seen t_cert deviceId d req = (d1, Response 200 b)"
  shows "\<exists>session a.
           find (\<lambda>s. s_activation_id s = fr_activationId req) (activation_sessions d) = Some session
         \<and> insert_activation a d = Some d1
         \<and> a_activation_id a = fr_activationId req \<and> a_jti a = s_jti session
         \<and> a_device_id a = deviceId"
proof -
  obtain session where s: "find (\<lambda>s. s_activation_id s = fr_activationId req) (activation_sessions d) = Some session"
    using assms
    by (cases "find (\<lambda>s. s_activation_id s = fr_activationId req) (activation_sessions d)")
       (simp_all add: activate_finish_def)
  obtain credential where c: "fr_credential req = Some credential"
    using assms s by (cases "fr_credential req") (simp_all add: activate_finish_def)
  obtain credential_id where i: "cr_id credential = Some credential_id"
    using assms s c by (cases "cr_id credential") (simp_all add: activate_finish_def)
  let ?a = "\<lparr>a_activation_id = fr_activationId req, a_jti = s_jti session,
             a_device_id = deviceId, a_credential_id = credential_id,
             a_public_key = ''{}'', a_last_seen = Some (t_seen div 1000),
             a_revoked = False\<rparr>"
  obtain d' where a: "insert_activation ?a d = Some d'"
    using assms s c i by (cases "insert_activation ?a d") (simp_all add: activate_finish_def)
  have "d1 = d'"
    using assms s c i a by (simp add: activate_finish_def split: option.splits)
  then have "insert_activation ?a d = Some d1" using a by simp
  moreover have "a_activation_id ?a = fr_activationId req" "a_jti ?a = s_jti session"
    "a_device_id ?a = deviceId" by simp_all
  ultimately show ?thesis using s by blast
qed

lemma insert_activation_Some:
  assumes "insert_activation a d = Some d1"
  shows "d1 = d\<lparr>activations := activations d @ [a]\<rparr>"
  using assms by (simp add: insert_activation_def split: if_splits)

text \<open>
  Claim C3, as amended. For every activation session the finish succeeds at most once.
  Once a finish has answered 200 for a session, every later finish with the same
  activationId, whatever statements the worker has run in between, creates no
  activation and no certificate and leaves the database as it is. It does not answer
  with a 404 or a 409: the session row is still there (a finish never removes it), and
  the call ends in an exception that the handler does not catch, raised by the primary
  key of activations (or by the missing credential of the request).
\<close>

theorem finish_succeeds_at_most_once:
  assumes "activate_finish rt t_seen t_cert deviceId d req = (d1, Response 200 b)"
    and "later d1 d2"
    and "fr_activationId req2 = fr_activationId req"
  shows "activate_finish rt t_seen2 t_cert2 deviceId2 d2 req2
           = (d2, Thrown (if fr_credential req2 = None then JsError else D1Error))
       \<and> activation_sessions d1 = activation_sessions d
       \<and> find (\<lambda>s. s_activation_id s = fr_activationId req) (activation_sessions d2) \<noteq> None"
proof -
  from activate_finish_200 [OF assms(1)] obtain session a where
    s: "find (\<lambda>s. s_activation_id s = fr_activationId req) (activation_sessions d) = Some session"
    and i: "insert_activation a d = Some d1" and aid: "a_activation_id a = fr_activationId req"
    by blast
  have d1: "d1 = d\<lparr>activations := activations d @ [a]\<rparr>" by (rule insert_activation_Some [OF i])
  have s1: "activation_sessions d1 = activation_sessions d" by (simp add: d1)
  have f1: "find (\<lambda>s. s_activation_id s = fr_activationId req) (activation_sessions d1) = Some session"
    using s by (simp add: s1)
  have a1: "list_ex (\<lambda>x. a_activation_id x = fr_activationId req) (activations d1)"
    by (simp add: d1 aid)
  have f2: "find (\<lambda>s. s_activation_id s = fr_activationId req2) (activation_sessions d2) = Some session"
    unfolding assms(3) by (rule later_session [OF assms(2) f1])
  have a2: "list_ex (\<lambda>x. a_activation_id x = fr_activationId req2) (activations d2)"
    unfolding assms(3) by (rule later_activation_id [OF assms(2) a1])
  have "activate_finish rt t_seen2 t_cert2 deviceId2 d2 req2
           = (d2, Thrown (if fr_credential req2 = None then JsError else D1Error))"
    by (rule activate_finish_again [OF f2 a2])
  moreover have "find (\<lambda>s. s_activation_id s = fr_activationId req) (activation_sessions d2) \<noteq> None"
    using f2 by (simp add: assms(3))
  ultimately show ?thesis using s1 by (intro conjI)
qed

lemma demo_finish:
  "activate_finish demo_runtime 1700000000000 1700000000001 ''dev-B'' demo_session_db
     demo_finish_request
   = (demo_bound_db,
      Response 200 (ActivationCert
        ''eyJhbGciOiJSUzI1NiIsInR5cCI6IkpXVCJ9.lic-1_dev-B.c2lnbmF0dXJl''))"
  by code_simp

theorem finish_succeeds_at_most_once_witness:
  "activate_finish demo_runtime 1700000000000 1700000000001 ''dev-B'' demo_session_db
     demo_finish_request
   = (demo_bound_db,
      Response 200 (ActivationCert
        ''eyJhbGciOiJSUzI1NiIsInR5cCI6IkpXVCJ9.lic-1_dev-B.c2lnbmF0dXJl''))
   \<and> activate_finish demo_runtime 1700000090000 1700000090001 ''dev-C''
        (fst (heartbeat demo_runtime 1700000060000 demo_bound_db
                \<lparr>hr_activationCert = demo_cert, hr_userIdHash = None\<rparr>))
        demo_finish_request
     = (fst (heartbeat demo_runtime 1700000060000 demo_bound_db
                \<lparr>hr_activationCert = demo_cert, hr_userIdHash = None\<rparr>),
        Thrown D1Error)"
proof -
  let ?d2 = "fst (heartbeat demo_runtime 1700000060000 demo_bound_db
                \<lparr>hr_activationCert = demo_cert, hr_userIdHash = None\<rparr>)"
  have l: "later demo_bound_db ?d2" by (rule heartbeat_later)
  have c: "(if fr_credential demo_finish_request = None then JsError else D1Error) = D1Error"
    by (simp add: demo_finish_request_def)
  have "activate_finish demo_runtime 1700000090000 1700000090001 ''dev-C'' ?d2 demo_finish_request
        = (?d2, Thrown (if fr_credential demo_finish_request = None then JsError else D1Error))"
    using finish_succeeds_at_most_once [OF demo_finish l refl] by (rule conjunct1)
  then have "activate_finish demo_runtime 1700000090000 1700000090001 ''dev-C'' ?d2
               demo_finish_request = (?d2, Thrown D1Error)"
    by (simp only: c)
  then show ?thesis using demo_finish by (intro conjI)
qed

text \<open>
  Claim C3 as stated fails in two places: the finish that succeeds leaves the session
  row where it was, and the second finish does not answer with a 404 or a 409, it
  ends in the exception that the primary key of activations raises.
\<close>

theorem finish_twice_counterexample:
  "activate_finish demo_runtime 1700000000000 1700000000001 ''dev-B'' demo_session_db
     demo_finish_request
   = (demo_bound_db,
      Response 200 (ActivationCert
        ''eyJhbGciOiJSUzI1NiIsInR5cCI6IkpXVCJ9.lic-1_dev-B.c2lnbmF0dXJl''))
   \<and> activation_sessions demo_bound_db = [demo_session]
   \<and> activate_finish demo_runtime 1700000090000 1700000090001 ''dev-C'' demo_bound_db
        demo_finish_request
     = (demo_bound_db, Thrown D1Error)"
  by code_simp

section \<open>Where the worker falls short of what it is to do\<close>

subsection \<open>A second device for a bound license\<close>

text \<open>
  A finish asks nothing about the activations that the license has already: with the
  session found, the activationId and the (jti, deviceId) pair new, the license row
  there and a credential id in the request, it inserts the activation and answers 200.
\<close>

lemma activate_finish_binds:
  assumes "find (\<lambda>s. s_activation_id s = fr_activationId req) (activation_sessions d) = Some session"
    and "fr_credential req = Some credential" and "cr_id credential = Some credential_id"
    and "\<not> list_ex (\<lambda>x. a_activation_id x = fr_activationId req) (activations d)"
    and "\<not> list_ex (\<lambda>x. a_jti x = s_jti session \<and> a_device_id x = deviceId) (activations d)"
    and "find (\<lambda>l. l_jti l = s_jti session) (licenses d) = Some license"
  shows "\<exists>cert. activate_finish rt t_seen t_cert deviceId d req
           = (d\<lparr>activations := activations d @
                 [\<lparr>a_activation_id = fr_activationId req, a_jti = s_jti session,
                   a_device_id = deviceId, a_credential_id = credential_id,
                   a_public_key = ''{}'', a_last_seen = Some (t_seen div 1000),
                   a_revoked = False\<rparr>]\<rparr>,
              Response 200 (ActivationCert cert))"
proof -
  have "list_ex (\<lambda>l. l_jti l = s_jti session) (licenses d)"
    using assms(6) by (auto simp: find_Some_iff list_ex_iff)
  then show ?thesis
    using assms by (simp add: activate_finish_def insert_activation_def)
qed

text \<open>
  Claim C4 on the example database: the license ''lic-1'' is bound to the device
  ''dev-A''. A start with its license token opens the session ''act-2'', and the finish
  of that session for the new device ''dev-B'' answers 200 with a certificate and adds
  a second activation of the license.
\<close>

theorem finish_binds_second_device:
  "map (\<lambda>a. (a_jti a, a_device_id a)) (activations demo_db) = [(''lic-1'', ''dev-A'')]
   \<and> activate_start demo_runtime 1699999990000 ''Y2hhbGxlbmdl'' ''act-2'' demo_db
        demo_start_request
     = (demo_session_db, Response 200 demo_started)
   \<and> activate_finish demo_runtime 1700000000000 1700000000001 ''dev-B'' demo_session_db
        demo_finish_request
     = (demo_bound_db,
        Response 200 (ActivationCert
          ''eyJhbGciOiJSUzI1NiIsInR5cCI6IkpXVCJ9.lic-1_dev-B.c2lnbmF0dXJl''))
   \<and> map (\<lambda>a. (a_jti a, a_device_id a)) (activations demo_bound_db)
     = [(''lic-1'', ''dev-A''), (''lic-1'', ''dev-B'')]"
  by code_simp

subsection \<open>Two redemptions of the last use of a coupon\<close>

text \<open>Without interleaving, a coupon that has no use left is refused and nothing changes.\<close>

lemma coupons_redeem_exhausted:
  assumes "find (\<lambda>c. cp_code c = code \<and> cp_project_id c = projectId) (coupon_codes d) = Some coupon"
    and "cp_max_uses coupon \<le> cp_current_uses coupon"
    and "code \<noteq> []" and "projectId \<noteq> []"
  shows "coupons_redeem rt t_check t_issue jti d
           \<lparr>rr_couponCode = Some code, rr_projectId = Some projectId\<rparr>
         = (d, Response 403 (Error ''This coupon has reached its maximum number of uses.''))"
  using assms by (simp add: coupons_redeem_def redeem_select_def falsy_text_def)

text \<open>
  Claim C1 on a coupon with one use left: two requests both run their SELECT and pass
  the test \<open>current_uses < max_uses\<close> before either writes. Each then inserts its license,
  increments the counter and answers 200 with a token: the second UPDATE is made on a
  counter that has reached \<open>max_uses\<close> already, and the counter ends at 2 of 1.
\<close>

theorem redeem_race_exceeds_max_uses:
  "redeem_select 1700000000000 demo_coupon_db demo_redeem_request = Inr demo_coupon
   \<and> redeem_select 1700000000001 demo_coupon_db demo_redeem_request = Inr demo_coupon
   \<and> snd (redeem_issue demo_runtime 1700000000002 ''lic-A'' demo_coupon_db
            demo_redeem_request demo_coupon)
     = Response 200 (LicenseToken ''eyJhbGciOiJSUzI1NiIsInR5cCI6IkpXVCJ9.lic-A.c2lnbmF0dXJl'')
   \<and> map cp_current_uses (coupon_codes demo_coupon_db_A) = [1]
   \<and> snd (redeem_issue demo_runtime 1700000000003 ''lic-B'' demo_coupon_db_A
            demo_redeem_request demo_coupon)
     = Response 200 (LicenseToken ''eyJhbGciOiJSUzI1NiIsInR5cCI6IkpXVCJ9.lic-B.c2lnbmF0dXJl'')
   \<and> map cp_current_uses (coupon_codes demo_coupon_db_AB) = [2]
   \<and> map cp_max_uses (coupon_codes demo_coupon_db_AB) = [1]
   \<and> map l_jti (licenses demo_coupon_db_AB) = [''lic-A'', ''lic-B'']"
  by code_simp

subsection \<open>Tokens whose signature is never looked at\<close>

lemma split_on_segment:
  "c \<notin> set h \<Longrightarrow> split_on c (h @ c # rest) = h # split_on c rest"
  by (induction h) (auto split: list.splits)

lemma split_on_nonempty: "split_on c s \<noteq> []"
  by (induction s) (auto split: list.splits)

text \<open>The payload that a handler decodes is that of the second segment, whatever the
  header and the signature are.\<close>

lemma decode_payload_segments:
  assumes "CHR ''.'' \<notin> set h" and "CHR ''.'' \<notin> set p"
  shows "decode_payload rt (h @ ''.'' @ p @ ''.'' @ signature) = atob_JSON_parse rt p"
proof -
  obtain x xs where s: "split_on CHR ''.'' signature = x # xs"
    using split_on_nonempty [of "CHR ''.''" signature] by (cases "split_on CHR ''.'' signature") auto
  have "split_on CHR ''.'' (h @ ''.'' @ p @ ''.'' @ signature)
        = h # p # split_on CHR ''.'' signature"
    using split_on_segment [OF assms(1), of "p @ ''.'' @ signature"]
      split_on_segment [OF assms(2), of signature] by simp
  then show ?thesis by (simp add: decode_payload_def s)
qed

text \<open>So no handler can tell a token from the same token under another signature.\<close>

lemma activate_start_any_signature:
  assumes "CHR ''.'' \<notin> set h" and "CHR ''.'' \<notin> set p"
  shows "activate_start rt now challenge activationId d
           \<lparr>sr_projectId = projectId, sr_licenseToken = h @ ''.'' @ p @ ''.'' @ signature1,
            sr_deviceInfo = deviceInfo, sr_hostname = hostname\<rparr>
         = activate_start rt now challenge activationId d
             \<lparr>sr_projectId = projectId, sr_licenseToken = h @ ''.'' @ p @ ''.'' @ signature2,
              sr_deviceInfo = deviceInfo, sr_hostname = hostname\<rparr>"
  unfolding activate_start_def start_request.simps decode_payload_segments [OF assms] ..

lemma heartbeat_any_signature:
  assumes "CHR ''.'' \<notin> set h" and "CHR ''.'' \<notin> set p"
  shows "heartbeat rt now d
           \<lparr>hr_activationCert = h @ ''.'' @ p @ ''.'' @ signature1, hr_userIdHash = userIdHash\<rparr>
         = heartbeat rt now d
             \<lparr>hr_activationCert = h @ ''.'' @ p @ ''.'' @ signature2, hr_userIdHash = userIdHash\<rparr>"
  unfolding heartbeat_def heartbeat_request.simps decode_payload_segments [OF assms] ..

lemma usage_meter_any_signature:
  assumes "CHR ''.'' \<notin> set h" and "CHR ''.'' \<notin> set p"
  shows "usage_meter rt t_check today now d
           \<lparr>mr_activationCert = h @ ''.'' @ p @ ''.'' @ signature1, mr_bucket = bucket,
            mr_cost = cost\<rparr>
         = usage_meter rt t_check today now d
             \<lparr>mr_activationCert = h @ ''.'' @ p @ ''.'' @ signature2, mr_bucket = bucket,
              mr_cost = cost\<rparr>"
  unfolding usage_meter_def meter_request.simps decode_payload_segments [OF assms] ..

text \<open>
  Claim C2 on the example runtime, whose signature of any data is ''c2lnbmF0dXJl'': a
  license token and a certificate that carry the signature ''Zm9yZ2Vk'' instead are
  taken by the start, the heartbeat and the meter as the signed ones are.
\<close>

theorem forged_signature_accepted:
  "rs256_sign demo_runtime (encodedHeader @ ''.'' @ ''lic-1'') = ''c2lnbmF0dXJl''
   \<and> rs256_sign demo_runtime (encodedHeader @ ''.'' @ ''lic-1_dev-A'') = ''c2lnbmF0dXJl''
   \<and> activate_start demo_runtime 1699999990000 ''Y2hhbGxlbmdl'' ''act-2'' demo_db
        (demo_start_request\<lparr>sr_licenseToken := forged_license_token\<rparr>)
     = (demo_session_db, Response 200 demo_started)
   \<and> snd (heartbeat demo_runtime 1700000000000 demo_db
            \<lparr>hr_activationCert = forged_cert, hr_userIdHash = None\<rparr>)
     = Response 200 Ok
   \<and> usage_meter demo_runtime 1700000000000 1700000000001 1700000000002 demo_db
        \<lparr>mr_activationCert = forged_cert, mr_bucket = ''general'', mr_cost = None\<rparr>
     = (demo_db\<lparr>usage := usage demo_db @
          [\<lparr>u_jti = ''lic-1'', u_device_id = ''dev-A'', u_bucket = ''general'', u_cost = 1,
            u_day_key = 19675, u_minute_key = 28333333, u_month_key = ''202311''\<rparr>]\<rparr>,
        Response 200 Allowed)"
  by code_simp

end
